theory Spec2Isabelle
  imports Complex_Main
begin

section \<open>Python values\<close>

text \<open>
  The validator of \<^verbatim>\<open>src/validators/element_validator.py\<close> receives an element as a
  \<^verbatim>\<open>Dict[str, Any]\<close>, so the fields of an element are dynamically typed: a rule that
  calls \<^verbatim>\<open>.lower()\<close> on a tag that is \<^verbatim>\<open>None\<close> raises. The values that can occur
  are modelled by one datatype. A \<^verbatim>\<open>str\<close> is a list of 8-bit characters, read as the
  code points 0 to 255; a finite \<^verbatim>\<open>float\<close> is its exact rational value (NaN and the
  infinities are outside the model); a \<^verbatim>\<open>dict\<close> with string keys is the list of its
  items in insertion order, looked up with \<^const>\<open>map_of\<close> (the keys of a Python dict
  are distinct).
\<close>

datatype pyval =
    PNone
  | PBool bool
  | PInt int
  | PFloat rat
  | PStr string
  | PList "pyval list"
  | PDict "(string \<times> pyval) list"

datatype py_error = AttributeError | TypeError | KeyError

definition bind_err :: "'e + 'a \<Rightarrow> ('a \<Rightarrow> 'e + 'b) \<Rightarrow> 'e + 'b" where
  "bind_err m f = (case m of Inl e \<Rightarrow> Inl e | Inr x \<Rightarrow> f x)"

text \<open>\<^verbatim>\<open>bool(v)\<close>, the truth value Python gives \<^verbatim>\<open>v\<close> in a condition.\<close>

fun truthy :: "pyval \<Rightarrow> bool" where
  "truthy PNone = False"
| "truthy (PBool b) = b"
| "truthy (PInt i) = (i \<noteq> 0)"
| "truthy (PFloat q) = (q \<noteq> 0)"
| "truthy (PStr s) = (s \<noteq> [])"
| "truthy (PList xs) = (xs \<noteq> [])"
| "truthy (PDict d) = (d \<noteq> [])"

text \<open>\<^verbatim>\<open>v.get(k, dflt)\<close>: only a dict has the method.\<close>

fun py_get :: "pyval \<Rightarrow> string \<Rightarrow> pyval \<Rightarrow> py_error + pyval" where
  "py_get (PDict d) k dflt = Inr (case map_of d k of None \<Rightarrow> dflt | Some v \<Rightarrow> v)"
| "py_get _ k dflt = Inl AttributeError"

text \<open>\<^verbatim>\<open>v[k]\<close> for a string key \<^verbatim>\<open>k\<close>.\<close>

fun py_subscript :: "pyval \<Rightarrow> string \<Rightarrow> py_error + pyval" where
  "py_subscript (PDict d) k = (case map_of d k of None \<Rightarrow> Inl KeyError | Some v \<Rightarrow> Inr v)"
| "py_subscript _ k = Inl TypeError"

fun startswith :: "string \<Rightarrow> string \<Rightarrow> bool" where
  "startswith s p = (take (length p) s = p)"

fun substring :: "string \<Rightarrow> string \<Rightarrow> bool" where
  "substring p [] = (p = [])"
| "substring p (c # cs) = (startswith (c # cs) p \<or> substring p cs)"

text \<open>
  \<^verbatim>\<open>k in v\<close> for a string \<^verbatim>\<open>k\<close>: a key of a dict, an element of a list, a substring of a
  string; the other values are not iterable.
\<close>

fun py_in :: "string \<Rightarrow> pyval \<Rightarrow> py_error + bool" where
  "py_in k (PDict d) = Inr (k \<in> set (map fst d))"
| "py_in k (PList xs) = Inr (PStr k \<in> set xs)"
| "py_in k (PStr s) = Inr (substring k s)"
| "py_in k _ = Inl TypeError"

text \<open>
  \<^verbatim>\<open>str.lower\<close> and \<^verbatim>\<open>str.strip\<close> on the code points below 256: the upper-case letters
  are A to Z and U+00C0 to U+00DE without the multiplication sign U+00D7, each 32 below
  its lower-case letter; the white space is U+0009 to U+000D, U+001C to U+0020, U+0085 and
  U+00A0.
\<close>

definition upper_chars :: string where
  "upper_chars = ''ABCDEFGHIJKLMNOPQRSTUVWXYZ'' @
     [CHR 0xC0, CHR 0xC1, CHR 0xC2, CHR 0xC3, CHR 0xC4, CHR 0xC5, CHR 0xC6, CHR 0xC7,
      CHR 0xC8, CHR 0xC9, CHR 0xCA, CHR 0xCB, CHR 0xCC, CHR 0xCD, CHR 0xCE, CHR 0xCF,
      CHR 0xD0, CHR 0xD1, CHR 0xD2, CHR 0xD3, CHR 0xD4, CHR 0xD5, CHR 0xD6,
      CHR 0xD8, CHR 0xD9, CHR 0xDA, CHR 0xDB, CHR 0xDC, CHR 0xDD, CHR 0xDE]"

definition lower_chars :: string where
  "lower_chars = ''abcdefghijklmnopqrstuvwxyz'' @
     [CHR 0xE0, CHR 0xE1, CHR 0xE2, CHR 0xE3, CHR 0xE4, CHR 0xE5, CHR 0xE6, CHR 0xE7,
      CHR 0xE8, CHR 0xE9, CHR 0xEA, CHR 0xEB, CHR 0xEC, CHR 0xED, CHR 0xEE, CHR 0xEF,
      CHR 0xF0, CHR 0xF1, CHR 0xF2, CHR 0xF3, CHR 0xF4, CHR 0xF5, CHR 0xF6,
      CHR 0xF8, CHR 0xF9, CHR 0xFA, CHR 0xFB, CHR 0xFC, CHR 0xFD, CHR 0xFE]"

definition lower_char :: "char \<Rightarrow> char" where
  "lower_char c = (case map_of (zip upper_chars lower_chars) c of None \<Rightarrow> c | Some l \<Rightarrow> l)"

definition lower :: "string \<Rightarrow> string" where
  "lower s = map lower_char s"

definition is_space :: "char \<Rightarrow> bool" where
  "is_space c = (c \<in> set [CHR 0x09, CHR 0x0A, CHR 0x0B, CHR 0x0C, CHR 0x0D,
                          CHR 0x1C, CHR 0x1D, CHR 0x1E, CHR 0x1F, CHR 0x20, CHR 0x85, CHR 0xA0])"

definition strip :: "string \<Rightarrow> string" where
  "strip s = rev (dropWhile is_space (rev (dropWhile is_space s)))"

text \<open>The string methods exist on a \<^verbatim>\<open>str\<close> only.\<close>

fun py_lower :: "pyval \<Rightarrow> py_error + string" where
  "py_lower (PStr s) = Inr (lower s)"
| "py_lower _ = Inl AttributeError"

fun py_strip :: "pyval \<Rightarrow> py_error + string" where
  "py_strip (PStr s) = Inr (strip s)"
| "py_strip _ = Inl AttributeError"

fun py_startswith :: "pyval \<Rightarrow> string \<Rightarrow> py_error + bool" where
  "py_startswith (PStr s) p = Inr (startswith s p)"
| "py_startswith _ p = Inl AttributeError"

text \<open>\<^verbatim>\<open>len(v)\<close>.\<close>

fun py_len :: "pyval \<Rightarrow> py_error + int" where
  "py_len (PStr s) = Inr (int (length s))"
| "py_len (PList xs) = Inr (int (length xs))"
| "py_len (PDict d) = Inr (int (length d))"
| "py_len _ = Inl TypeError"

text \<open>
  \<^verbatim>\<open>v < n\<close> for a number \<^verbatim>\<open>n\<close>: Python compares ints, floats and bools (a subclass of
  int) by value and raises on anything else.
\<close>

fun num_of :: "pyval \<Rightarrow> rat option" where
  "num_of (PInt i) = Some (of_int i)"
| "num_of (PFloat q) = Some q"
| "num_of (PBool b) = Some (of_bool b)"
| "num_of _ = None"

definition py_lt :: "pyval \<Rightarrow> rat \<Rightarrow> py_error + bool" where
  "py_lt v n = (case num_of v of None \<Rightarrow> Inl TypeError | Some a \<Rightarrow> Inr (a < n))"

section \<open>Issues and results\<close>

datatype ValidationSeverity = CRITICAL | HIGH | MEDIUM | LOW | INFO

datatype ValidationCategory =
  ACCESSIBILITY | FUNCTIONALITY | VISUAL | PERFORMANCE | USABILITY | COMPLIANCE

text \<open>The \<^verbatim>\<open>.value\<close> of the two enums.\<close>

fun severity_value :: "ValidationSeverity \<Rightarrow> string" where
  "severity_value CRITICAL = ''critical''"
| "severity_value HIGH = ''high''"
| "severity_value MEDIUM = ''medium''"
| "severity_value LOW = ''low''"
| "severity_value INFO = ''info''"

fun category_value :: "ValidationCategory \<Rightarrow> string" where
  "category_value ACCESSIBILITY = ''accessibility''"
| "category_value FUNCTIONALITY = ''functionality''"
| "category_value VISUAL = ''visual''"
| "category_value PERFORMANCE = ''performance''"
| "category_value USABILITY = ''usability''"
| "category_value COMPLIANCE = ''compliance''"

text \<open>
  A message is a list of fragments: literal text, and the replacement fields of an
  f-string, whose formatting (the \<^verbatim>\<open>repr\<close> of a float, for one) is left symbolic.
\<close>

datatype fragment = Lit string | Fmt pyval

record ValidationIssue =
  element_selector :: pyval
  issue_type :: string
  severity :: ValidationSeverity
  category :: ValidationCategory
  message :: "fragment list"
  description :: string
  recommendation :: string
  wcag_guideline :: "string option"
  element_info :: "pyval option"

text \<open>
  The result of one element; its field \<^verbatim>\<open>element_selector\<close> is \<open>result_selector\<close> here,
  the name being taken by the issue. The source also stores \<^verbatim>\<open>validation_time\<close>, a
  difference of two readings of the wall clock; it is not part of the model.
\<close>

record ValidationResult =
  result_selector :: pyval
  passed :: bool
  issues :: "ValidationIssue list"
  checks_performed :: "string list"
  metadata :: "(string \<times> pyval) list"

text \<open>The constructor of the dataclass; \<^verbatim>\<open>element_info\<close> keeps its default \<^verbatim>\<open>None\<close>.\<close>

definition mk_issue ::
  "pyval \<Rightarrow> string \<Rightarrow> ValidationSeverity \<Rightarrow> ValidationCategory \<Rightarrow> fragment list \<Rightarrow>
   string \<Rightarrow> string \<Rightarrow> string option \<Rightarrow> ValidationIssue" where
  "mk_issue sel ty sev cat msg descr rec guideline =
     \<lparr>element_selector = sel, issue_type = ty, severity = sev, category = cat,
      message = msg, description = descr, recommendation = rec,
      wcag_guideline = guideline, element_info = None\<rparr>"

section \<open>Conditions that can raise\<close>

text \<open>
  \<^verbatim>\<open>a and b\<close>, \<^verbatim>\<open>a or b\<close> and \<^verbatim>\<open>not a\<close> on conditions whose evaluation can raise: the
  right operand is evaluated, and can raise, only where Python evaluates it.
  \<open>py_if c body\<close> is an \<^verbatim>\<open>if\<close> without \<^verbatim>\<open>else\<close> whose body appends issues.
\<close>

definition py_and :: "py_error + bool \<Rightarrow> py_error + bool \<Rightarrow> py_error + bool" where
  "py_and a b = bind_err a (\<lambda>x. if x then b else Inr False)"

definition py_or :: "py_error + bool \<Rightarrow> py_error + bool \<Rightarrow> py_error + bool" where
  "py_or a b = bind_err a (\<lambda>x. if x then Inr True else b)"

definition py_not :: "py_error + bool \<Rightarrow> py_error + bool" where
  "py_not a = bind_err a (\<lambda>x. Inr (\<not> x))"

definition py_if :: "py_error + bool \<Rightarrow> py_error + 'a list \<Rightarrow> py_error + 'a list" where
  "py_if c body = bind_err c (\<lambda>x. if x then body else Inr [])"

text \<open>\<^verbatim>\<open>v.items()\<close>.\<close>

fun py_items :: "pyval \<Rightarrow> py_error + (string \<times> pyval) list" where
  "py_items (PDict d) = Inr d"
| "py_items _ = Inl AttributeError"

section \<open>The rules\<close>

text \<open>
  Every rule is a method of the validator; the first argument stands for \<^verbatim>\<open>self\<close>, of
  which a rule could read the configuration. A rule returns the issues it found, or the
  exception it raised.
\<close>

type_synonym rule = "pyval \<Rightarrow> py_error + ValidationIssue list"

definition check_accessibility_basic :: "pyval \<Rightarrow> rule" where
  "check_accessibility_basic self element =
     bind_err (bind_err (py_get element ''tag_name'' (PStr [])) py_lower) (\<lambda>tag_name.
     bind_err (py_get element ''attributes'' (PDict [])) (\<lambda>attributes.
     bind_err (py_get element ''css_selector'' (PStr ''unknown'')) (\<lambda>selector.
     bind_err
       (py_if (Inr (tag_name = ''img''))
          (py_if (py_or (py_not (py_in ''alt'' attributes))
                        (bind_err (bind_err (py_subscript attributes ''alt'') py_strip)
                           (\<lambda>s. Inr (s = []))))
             (Inr [mk_issue selector ''missing_alt_text'' HIGH ACCESSIBILITY
                     [Lit ''Image missing alt text'']
                     ''Image elements must have alt text for screen readers''
                     ''Add descriptive alt text to the image''
                     (Some ''WCAG 2.1 - 1.1.1 Non-text Content'')]))) (\<lambda>issues1.
     bind_err
       (py_if (py_and (Inr (tag_name = ''input''))
                      (bind_err (py_get attributes ''type'' PNone)
                         (\<lambda>ty. Inr (ty \<notin> set [PStr ''submit'', PStr ''button'', PStr ''hidden'']))))
          (py_if (py_not (py_in ''id'' attributes))
             (Inr [mk_issue selector ''missing_input_id'' MEDIUM ACCESSIBILITY
                     [Lit ''Form input missing ID for label association'']
                     ''Input elements should have IDs for proper label association''
                     ''Add an id attribute to enable label association''
                     (Some ''WCAG 2.1 - 3.3.2 Labels or Instructions'')]))) (\<lambda>issues2.
     bind_err
       (py_if (py_or (Inr (tag_name = ''button''))
                     (py_and (Inr (tag_name = ''input''))
                             (bind_err (py_get attributes ''type'' PNone)
                                (\<lambda>ty. Inr (ty = PStr ''button'')))))
          (bind_err (bind_err (py_get element ''text_content'' (PStr [])) py_strip) (\<lambda>text_content.
           py_if (py_and (Inr (text_content = []))
                    (py_and (py_not (py_in ''aria-label'' attributes))
                            (py_not (py_in ''title'' attributes))))
             (Inr [mk_issue selector ''button_no_accessible_name'' HIGH ACCESSIBILITY
                     [Lit ''Button has no accessible name'']
                     ''Buttons must have accessible names for screen readers''
                     ''Add text content, aria-label, or title attribute''
                     (Some ''WCAG 2.1 - 4.1.2 Name, Role, Value'')])))) (\<lambda>issues3.
     Inr (issues1 @ issues2 @ issues3)))))))"

text \<open>
  The loop over \<^verbatim>\<open>attributes.items()\<close>: an attribute value without \<^verbatim>\<open>strip\<close> ends the
  rule with the exception, and the issues found so far are lost with it.
\<close>

fun aria_loop ::
  "pyval \<Rightarrow> (string \<times> pyval) list \<Rightarrow> ValidationIssue list \<Rightarrow> py_error + ValidationIssue list" where
  "aria_loop selector [] found = Inr found"
| "aria_loop selector ((attr_name, attr_value) # rest) found =
     (if startswith attr_name ''aria-'' then
        (case py_strip attr_value of
           Inl err \<Rightarrow> Inl err
         | Inr s \<Rightarrow>
             aria_loop selector rest
               (if s = [] then
                  found @
                  [mk_issue selector ''empty_aria_attribute'' MEDIUM ACCESSIBILITY
                     [Lit (''Empty ARIA attribute: '' @ attr_name)]
                     ''ARIA attributes should have meaningful values''
                     (''Provide a value for '' @ attr_name @ '' or remove the attribute'')
                     (Some ''WCAG 2.1 - 4.1.2 Name, Role, Value'')]
                else found))
      else aria_loop selector rest found)"

definition check_accessibility_advanced :: "pyval \<Rightarrow> rule" where
  "check_accessibility_advanced self element =
     bind_err (py_get element ''attributes'' (PDict [])) (\<lambda>attributes.
     bind_err (py_get element ''css_selector'' (PStr ''unknown'')) (\<lambda>selector.
     bind_err (bind_err (py_get element ''tag_name'' (PStr [])) py_lower) (\<lambda>tag_name.
     bind_err
       (py_if (Inr (tag_name \<in> set [''h1'', ''h2'', ''h3'', ''h4'', ''h5'', ''h6'']))
          (bind_err (bind_err (py_get element ''text_content'' (PStr [])) py_strip) (\<lambda>text_content.
           py_if (Inr (text_content = []))
             (Inr [mk_issue selector ''empty_heading'' MEDIUM ACCESSIBILITY
                     [Lit ''Heading element is empty'']
                     ''Heading elements should contain descriptive text''
                     ''Add meaningful text content to the heading''
                     (Some ''WCAG 2.1 - 2.4.6 Headings and Labels'')])))) (\<lambda>issues1.
     bind_err (py_items attributes) (\<lambda>items.
     aria_loop selector items issues1)))))"

definition check_form_elements :: "pyval \<Rightarrow> rule" where
  \<open>check_form_elements self element =
     bind_err (bind_err (py_get element ''tag_name'' (PStr [])) py_lower) (\<lambda>tag_name.
     bind_err (py_get element ''attributes'' (PDict [])) (\<lambda>attributes.
     bind_err (py_get element ''css_selector'' (PStr ''unknown'')) (\<lambda>selector.
     py_if (Inr (tag_name \<in> set [''input'', ''textarea'', ''select'']))
       (bind_err
          (py_if (py_in ''required'' attributes)
             (py_if (py_not (py_in ''aria-required'' attributes))
                (Inr [mk_issue selector ''missing_aria_required'' LOW ACCESSIBILITY
                        [Lit ''Required field missing aria-required attribute'']
                        ''Required form fields should have aria-required="true"''
                        ''Add aria-required="true" to the element''
                        (Some ''WCAG 2.1 - 3.3.2 Labels or Instructions'')]))) (\<lambda>issues1.
        bind_err
          (py_if (Inr (tag_name = ''input''))
             (bind_err (py_get attributes ''type'' (PStr ''text'')) (\<lambda>input_type.
              py_if (py_and (Inr (input_type = PStr ''email''))
                            (py_not (py_in ''pattern'' attributes)))
                (Inr [mk_issue selector ''email_input_no_validation'' LOW FUNCTIONALITY
                        [Lit ''Email input without pattern validation'']
                        ''Email inputs should have pattern validation for better UX''
                        ''Consider adding a pattern attribute for email validation''
                        None])))) (\<lambda>issues2.
        Inr (issues1 @ issues2)))))))\<close>

definition check_links :: "pyval \<Rightarrow> rule" where
  \<open>check_links self element =
     bind_err (bind_err (py_get element ''tag_name'' (PStr [])) py_lower) (\<lambda>tag_name.
     bind_err (py_get element ''attributes'' (PDict [])) (\<lambda>attributes.
     bind_err (py_get element ''css_selector'' (PStr ''unknown'')) (\<lambda>selector.
     py_if (Inr (tag_name = ''a''))
       (bind_err (py_get attributes ''href'' (PStr [])) (\<lambda>href.
        bind_err (bind_err (py_get element ''text_content'' (PStr [])) py_strip) (\<lambda>text_content.
        bind_err
          (py_if (py_and (Inr (text_content = [])) (py_not (py_in ''aria-label'' attributes)))
             (Inr [mk_issue selector ''empty_link'' HIGH ACCESSIBILITY
                     [Lit ''Link has no accessible text'']
                     ''Links must have accessible text for screen readers''
                     ''Add text content or aria-label to the link''
                     (Some ''WCAG 2.1 - 2.4.4 Link Purpose'')])) (\<lambda>issues1.
        bind_err
          (py_if (Inr (lower text_content \<in>
                        set [''click here'', ''read more'', ''more'', ''link'', ''here'']))
             (Inr [mk_issue selector ''generic_link_text'' MEDIUM USABILITY
                     [Lit ''Link uses generic text'']
                     ''Link text should be descriptive of the destination''
                     ''Use more descriptive link text''
                     (Some ''WCAG 2.1 - 2.4.4 Link Purpose'')])) (\<lambda>issues2.
        bind_err
          (py_if (py_and (py_startswith href ''http'')
                    (py_and (py_in ''target'' attributes)
                            (bind_err (py_subscript attributes ''target'')
                               (\<lambda>target. Inr (target = PStr ''_blank'')))))
             (py_if (py_or (py_not (py_in ''rel'' attributes))
                           (py_not (bind_err (py_subscript attributes ''rel'')
                                      (py_in ''noopener''))))
                (Inr [mk_issue selector ''external_link_security'' MEDIUM COMPLIANCE
                        [Lit ''External link missing security attributes'']
                        ''External links should include rel="noopener" for security''
                        ''Add rel="noopener noreferrer" to external links''
                        None]))) (\<lambda>issues3.
        Inr (issues1 @ issues2 @ issues3))))))))))\<close>

definition check_images :: "pyval \<Rightarrow> rule" where
  \<open>check_images self element =
     bind_err (bind_err (py_get element ''tag_name'' (PStr [])) py_lower) (\<lambda>tag_name.
     bind_err (py_get element ''attributes'' (PDict [])) (\<lambda>attributes.
     bind_err (py_get element ''css_selector'' (PStr ''unknown'')) (\<lambda>selector.
     py_if (Inr (tag_name = ''img''))
       (bind_err
          (py_if (py_not (py_in ''loading'' attributes))
             (Inr [mk_issue selector ''missing_loading_attribute'' LOW PERFORMANCE
                     [Lit ''Image missing loading attribute'']
                     ''Images should use loading="lazy" for better performance''
                     ''Add loading="lazy" for non-critical images''
                     None])) (\<lambda>issues1.
        bind_err
          (py_if (py_or (py_not (py_in ''width'' attributes))
                        (py_not (py_in ''height'' attributes)))
             (Inr [mk_issue selector ''missing_image_dimensions'' LOW PERFORMANCE
                     [Lit ''Image missing width/height attributes'']
                     ''Images should have width and height to prevent layout shift''
                     ''Add width and height attributes to prevent CLS''
                     None])) (\<lambda>issues2.
        Inr (issues1 @ issues2)))))))\<close>

text \<open>
  The threshold of the touch target is the local constant \<^verbatim>\<open>min_size = 44\<close> of the
  method.
\<close>

definition check_interactive_elements :: "pyval \<Rightarrow> rule" where
  "check_interactive_elements self element =
     bind_err (bind_err (py_get element ''tag_name'' (PStr [])) py_lower) (\<lambda>tag_name.
     bind_err (py_get element ''bounding_rect'' (PDict [])) (\<lambda>bounding_rect.
     bind_err (py_get element ''css_selector'' (PStr ''unknown'')) (\<lambda>selector.
     py_if (Inr (tag_name \<in> set [''button'', ''a'', ''input'', ''select'', ''textarea'']))
       (bind_err (py_get bounding_rect ''width'' (PInt 0)) (\<lambda>width.
        bind_err (py_get bounding_rect ''height'' (PInt 0)) (\<lambda>height.
        let min_size = 44 in
        py_if (py_or (py_lt width min_size) (py_lt height min_size))
          (Inr [mk_issue selector ''small_touch_target'' MEDIUM USABILITY
                  [Lit ''Touch target too small ('', Fmt width, Lit ''x'', Fmt height, Lit ''px)'']
                  ''Interactive elements should be at least 44x44px for accessibility''
                  ''Increase the size of the interactive element''
                  (Some ''WCAG 2.1 - 2.5.5 Target Size'')])))))))"

definition check_text_content :: "pyval \<Rightarrow> rule" where
  "check_text_content self element =
     bind_err (py_get element ''text_content'' (PStr [])) (\<lambda>text_content.
     bind_err (py_get element ''css_selector'' (PStr ''unknown'')) (\<lambda>selector.
     py_if (py_and (bind_err (py_len text_content) (\<lambda>n. Inr (n > 500)))
                   (py_not (py_in [CHR 0x0A] text_content)))
       (Inr [mk_issue selector ''long_text_no_breaks'' LOW USABILITY
               [Lit ''Very long text without line breaks'']
               ''Long text should be broken into paragraphs for readability''
               ''Consider breaking long text into smaller sections''
               None])))"

definition check_visual_layout :: "pyval \<Rightarrow> rule" where
  "check_visual_layout self element =
     bind_err (py_get element ''bounding_rect'' (PDict [])) (\<lambda>bounding_rect.
     bind_err (py_get element ''css_selector'' (PStr ''unknown'')) (\<lambda>selector.
     bind_err (py_get element ''is_visible'' (PBool True)) (\<lambda>is_visible.
     bind_err (py_get bounding_rect ''x'' (PInt 0)) (\<lambda>x.
     bind_err (py_get bounding_rect ''y'' (PInt 0)) (\<lambda>y.
     py_if (py_and (Inr (truthy is_visible)) (py_or (py_lt x (- 100)) (py_lt y (- 100))))
       (Inr [mk_issue selector ''element_outside_viewport'' LOW VISUAL
               [Lit ''Element positioned outside typical viewport'']
               ''Element may not be visible to users''
               ''Check element positioning and layout''
               None]))))))"

definition check_performance_indicators :: "pyval \<Rightarrow> rule" where
  "check_performance_indicators self element =
     bind_err (bind_err (py_get element ''tag_name'' (PStr [])) py_lower) (\<lambda>tag_name.
     bind_err (py_get element ''attributes'' (PDict [])) (\<lambda>attributes.
     bind_err (py_get element ''css_selector'' (PStr ''unknown'')) (\<lambda>selector.
     py_if (py_and (py_in ''style'' attributes)
                   (bind_err (bind_err (py_subscript attributes ''style'') py_strip)
                      (\<lambda>s. Inr (s \<noteq> []))))
       (Inr [mk_issue selector ''inline_styles'' LOW PERFORMANCE
               [Lit ''Element uses inline styles'']
               ''Inline styles can impact performance and maintainability''
               ''Consider moving styles to CSS files''
               None]))))"

section \<open>The validator\<close>

record ElementValidator =
  config :: pyval
  validation_rules :: "(string \<times> rule) list"

definition get_default_config :: pyval where
  "get_default_config =
     PDict [(''accessibility_level'', PStr ''AA''),
            (''check_performance'', PBool True),
            (''check_usability'', PBool True),
            (''check_visual'', PBool True),
            (''minimum_touch_target'', PInt 44),
            (''check_security'', PBool True)]"

text \<open>The registry: a dict from the name of a rule to the bound method, in this order.\<close>

definition load_validation_rules :: "pyval \<Rightarrow> (string \<times> rule) list" where
  "load_validation_rules self =
     [(''accessibility_basic'', check_accessibility_basic self),
      (''accessibility_advanced'', check_accessibility_advanced self),
      (''form_validation'', check_form_elements self),
      (''link_validation'', check_links self),
      (''image_validation'', check_images self),
      (''interactive_elements'', check_interactive_elements self),
      (''text_content'', check_text_content self),
      (''visual_layout'', check_visual_layout self),
      (''performance'', check_performance_indicators self)]"

text \<open>
  The constructor; \<^verbatim>\<open>None\<close> is \<^const>\<open>PNone\<close>. \<^verbatim>\<open>config or default\<close> takes the default
  for every configuration that is false as a condition, the empty dict too.
\<close>

definition init :: "pyval \<Rightarrow> ElementValidator" where
  "init cfg =
     (let c = (if truthy cfg then cfg else get_default_config)
      in \<lparr>config = c, validation_rules = load_validation_rules c\<rparr>)"

text \<open>
  One turn of the loop over the requested names: a name that is not in the registry is
  passed over; the exception of a rule is caught (the source writes it to the log) and
  leaves both lists as they were.
\<close>

definition check_step ::
  "(string \<times> rule) list \<Rightarrow> pyval \<Rightarrow> ValidationIssue list \<times> string list \<Rightarrow> string \<Rightarrow>
   ValidationIssue list \<times> string list" where
  "check_step rules element acc check_name =
     (case map_of rules check_name of
        None \<Rightarrow> acc
      | Some f \<Rightarrow>
          (case f element of
             Inl err \<Rightarrow> acc
           | Inr check_issues \<Rightarrow> (fst acc @ check_issues, snd acc @ [check_name])))"

definition validate_element ::
  "ElementValidator \<Rightarrow> pyval \<Rightarrow> string list option \<Rightarrow> py_error + ValidationResult" where
  "validate_element self element checks =
     (let names = (case checks of None \<Rightarrow> map fst (validation_rules self) | Some cs \<Rightarrow> cs);
          acc = foldl (check_step (validation_rules self) element) ([], []) names;
          ok = (length (filter (\<lambda>i. severity i \<in> set [CRITICAL, HIGH]) (fst acc)) = 0)
      in bind_err (py_get element ''css_selector'' (PStr ''unknown'')) (\<lambda>selector.
         bind_err (py_get element ''tag_name'' PNone) (\<lambda>element_tag.
         bind_err (bind_err (py_get element ''attributes'' (PDict []))
                     (\<lambda>a. py_get a ''id'' PNone)) (\<lambda>element_id.
         bind_err (bind_err (py_get element ''attributes'' (PDict []))
                     (\<lambda>a. py_get a ''class'' PNone)) (\<lambda>element_classes.
         Inr \<lparr>result_selector = selector, passed = ok, issues = fst acc,
              checks_performed = snd acc,
              metadata = [(''element_tag'', element_tag), (''element_id'', element_id),
                          (''element_classes'', element_classes)]\<rparr>)))))"

section \<open>The summary\<close>

text \<open>
  A histogram is a dict from the value of an enum to a count.
  \<^verbatim>\<open>d[k] = d.get(k, 0) + 1\<close> overwrites the entry of a key in place and appends a new key.
\<close>

definition dict_get :: "(string \<times> int) list \<Rightarrow> string \<Rightarrow> int \<Rightarrow> int" where
  "dict_get d k dflt = (case map_of d k of None \<Rightarrow> dflt | Some v \<Rightarrow> v)"

fun dict_set :: "(string \<times> int) list \<Rightarrow> string \<Rightarrow> int \<Rightarrow> (string \<times> int) list" where
  "dict_set [] k v = [(k, v)]"
| "dict_set ((k', v') # d) k v = (if k' = k then (k, v) # d else (k', v') # dict_set d k v)"

definition count_issue ::
  "(string \<times> int) list \<times> (string \<times> int) list \<Rightarrow> ValidationIssue \<Rightarrow>
   (string \<times> int) list \<times> (string \<times> int) list" where
  "count_issue hist issue =
     (let sev = severity_value (severity issue);
          cat = category_value (category issue)
      in (dict_set (fst hist) sev (dict_get (fst hist) sev 0 + 1),
          dict_set (snd hist) cat (dict_get (snd hist) cat 0 + 1)))"

text \<open>
  The pass rate is the int \<^verbatim>\<open>0\<close> for no results and a float otherwise; the float is
  given by the exact quotient, before the two roundings of the float arithmetic.
\<close>

datatype rate = RateInt int | RateFloat rat

record Summary =
  total_elements :: int
  passed_elements :: int
  failed_elements :: int
  pass_rate :: rate
  total_issues :: int
  issues_by_severity :: "(string \<times> int) list"
  issues_by_category :: "(string \<times> int) list"
  critical_issues :: int
  high_issues :: int

definition get_validation_summary :: "ValidationResult list \<Rightarrow> Summary" where
  "get_validation_summary results =
     (let total = int (length results);
          n_passed = int (length (filter passed results));
          n_failed = total - n_passed;
          all_issues = concat (map issues results);
          hist = foldl count_issue ([], []) all_issues
      in \<lparr>total_elements = total,
          passed_elements = n_passed,
          failed_elements = n_failed,
          pass_rate = (if total > 0 then RateFloat (of_int n_passed / of_int total * 100)
                       else RateInt 0),
          total_issues = int (length all_issues),
          issues_by_severity = fst hist,
          issues_by_category = snd hist,
          critical_issues = dict_get (fst hist) ''critical'' 0,
          high_issues = dict_get (fst hist) ''high'' 0\<rparr>)"

section \<open>Notions used in the statements\<close>

text \<open>
  What a requested name contributes to the result of an element: the issues of its rule,
  and whether the rule ran, that is, the name is in the registry and the rule returned.
\<close>

definition rule_issues :: "(string \<times> rule) list \<Rightarrow> pyval \<Rightarrow> string \<Rightarrow> ValidationIssue list" where
  "rule_issues rules element name =
     (case map_of rules name of
        None \<Rightarrow> []
      | Some f \<Rightarrow> (case f element of Inl err \<Rightarrow> [] | Inr found \<Rightarrow> found))"

definition rule_ran :: "(string \<times> rule) list \<Rightarrow> pyval \<Rightarrow> string \<Rightarrow> bool" where
  "rule_ran rules element name =
     (case map_of rules name of
        None \<Rightarrow> False
      | Some f \<Rightarrow> (case f element of Inl err \<Rightarrow> False | Inr found \<Rightarrow> True))"

text \<open>The names that a call runs through: the requested ones, or the keys of the registry.\<close>

definition requested :: "ElementValidator \<Rightarrow> string list option \<Rightarrow> string list" where
  "requested self checks =
     (case checks of None \<Rightarrow> map fst (validation_rules self) | Some cs \<Rightarrow> cs)"

text \<open>
  An element on which the metadata of the result can be read: a dict whose
  \<^verbatim>\<open>attributes\<close> are absent or a dict.
\<close>

fun is_dict :: "pyval \<Rightarrow> bool" where
  "is_dict (PDict d) = True"
| "is_dict _ = False"

definition attributes_ok :: "pyval \<Rightarrow> bool" where
  "attributes_ok element =
     (case element of
        PDict d \<Rightarrow> (case map_of d ''attributes'' of None \<Rightarrow> True | Some a \<Rightarrow> is_dict a)
      | _ \<Rightarrow> False)"

text \<open>Elements of the scenarios.\<close>

definition img_element :: pyval where
  "img_element = PDict [(''tag_name'', PStr ''img''), (''attributes'', PDict [])]"


text \<open>The keys of the registry.\<close>

definition rule_names :: "string list" where
  "rule_names =
     [''accessibility_basic'', ''accessibility_advanced'', ''form_validation'',
      ''link_validation'', ''image_validation'', ''interactive_elements'', ''text_content'',
      ''visual_layout'', ''performance'']"

text \<open>What the statements compare of a result: everything but the selector and the metadata.\<close>

definition outcome :: "ValidationResult \<Rightarrow> bool \<times> ValidationIssue list \<times> string list" where
  "outcome r = (passed r, issues r, checks_performed r)"

text \<open>
  The lower-cased tag of an element and a number of its bounding rect, as the rule of
  the interactive elements reads them: an absent tag is the empty string, an absent rect
  or coordinate is \<^verbatim>\<open>0\<close>.
\<close>

definition lowered_tag :: "pyval \<Rightarrow> py_error + string" where
  "lowered_tag element = bind_err (py_get element ''tag_name'' (PStr [])) py_lower"

definition rect_number :: "pyval \<Rightarrow> string \<Rightarrow> py_error + rat" where
  "rect_number element k =
     bind_err (py_get element ''bounding_rect'' (PDict [])) (\<lambda>rect.
     bind_err (py_get rect k (PInt 0)) (\<lambda>v.
     case num_of v of None \<Rightarrow> Inl TypeError | Some q \<Rightarrow> Inr q))"

text \<open>
  The defaults of the fields. \<open>with_defaults\<close> writes them into an element: each field
  that is absent, and each coordinate that is absent from a bounding rect.
\<close>

definition zero_rect :: "(string \<times> pyval) list" where
  "zero_rect = [(''x'', PInt 0), (''y'', PInt 0), (''width'', PInt 0), (''height'', PInt 0)]"

definition field_defaults :: "(string \<times> pyval) list" where
  "field_defaults =
     [(''tag_name'', PStr []),
      (''attributes'', PDict []),
      (''text_content'', PStr []),
      (''bounding_rect'', PDict zero_rect),
      (''is_visible'', PBool True)]"

fun fill_rect :: "pyval \<Rightarrow> pyval" where
  "fill_rect (PDict b) = PDict (b @ zero_rect)"
| "fill_rect v = v"

definition fill_field :: "string \<times> pyval \<Rightarrow> string \<times> pyval" where
  "fill_field kv = (if fst kv = ''bounding_rect'' then (fst kv, fill_rect (snd kv)) else kv)"

fun with_defaults :: "pyval \<Rightarrow> pyval" where
  "with_defaults (PDict d) = PDict (map fill_field d @ field_defaults)"
| "with_defaults v = v"

text \<open>
  The records with absent or partial fields: a dict in which each field that the rules
  operate on is absent or of the type that the scraper gives it, that is, the tag and the
  text a string, the attributes a dict of strings, and the bounding rect a dict of
  numbers, of which any coordinate may be absent. The other fields, the selector and the
  visibility among them, are not constrained.
\<close>

fun is_str :: "pyval \<Rightarrow> bool" where
  "is_str (PStr s) = True"
| "is_str _ = False"

definition is_num :: "pyval \<Rightarrow> bool" where
  "is_num v = (num_of v \<noteq> None)"

definition dict_of :: "(pyval \<Rightarrow> bool) \<Rightarrow> pyval \<Rightarrow> bool" where
  "dict_of P v = (case v of PDict d \<Rightarrow> list_all (\<lambda>kv. P (snd kv)) d | _ \<Rightarrow> False)"

definition field_is :: "(pyval \<Rightarrow> bool) \<Rightarrow> (string \<times> pyval) list \<Rightarrow> string \<Rightarrow> bool" where
  "field_is P d k = (case map_of d k of None \<Rightarrow> True | Some v \<Rightarrow> P v)"

definition element_record :: "pyval \<Rightarrow> bool" where
  "element_record element =
     (case element of
        PDict d \<Rightarrow>
          field_is is_str d ''tag_name'' \<and>
          field_is (dict_of is_str) d ''attributes'' \<and>
          field_is is_str d ''text_content'' \<and>
          field_is (dict_of is_num) d ''bounding_rect''
      | _ \<Rightarrow> False)"

text \<open>More elements and configurations of the scenarios.\<close>

definition partial_button_element :: pyval where
  "partial_button_element =
     PDict [(''tag_name'', PStr ''button''), (''bounding_rect'', PDict [(''width'', PInt 50)])]"

definition touch_48_config :: pyval where
  "touch_48_config = PDict [(''minimum_touch_target'', PInt 48)]"

definition button_46_element :: pyval where
  "button_46_element =
     PDict [(''tag_name'', PStr ''button''), (''text_content'', PStr ''OK''),
            (''bounding_rect'', PDict [(''width'', PInt 46), (''height'', PInt 46)])]"

definition small_button_element :: pyval where
  "small_button_element =
     PDict [(''tag_name'', PStr ''BUTTON''), (''text_content'', PStr ''OK''),
            (''bounding_rect'', PDict [(''width'', PFloat 43.5), (''height'', PInt 50)])]"

definition disabled_groups_config :: pyval where
  "disabled_groups_config =
     PDict [(''accessibility_level'', PStr ''AA''),
            (''check_performance'', PBool False),
            (''check_usability'', PBool False),
            (''check_visual'', PBool False),
            (''minimum_touch_target'', PInt 44),
            (''check_security'', PBool False)]"

definition styled_link_element :: pyval where
  "styled_link_element =
     PDict [(''tag_name'', PStr ''a''), (''text_content'', PStr ''here''),
            (''attributes'',
               PDict [(''href'', PStr ''http://example.com''), (''target'', PStr ''_blank''),
                      (''style'', PStr ''color: red'')]),
            (''bounding_rect'',
               PDict [(''x'', PInt (- 200)), (''y'', PInt 0), (''width'', PInt 20),
                      (''height'', PInt 20)]),
            (''is_visible'', PBool True)]"

section \<open>The loop over the requested rules\<close>

lemma check_step_eq:
  "check_step rules element acc name =
     (fst acc @ rule_issues rules element name,
      snd acc @ (if rule_ran rules element name then [name] else []))"
  by (simp add: check_step_def rule_issues_def rule_ran_def split: option.split sum.split)

lemma foldl_check_step:
  "foldl (check_step rules element) acc names =
     (fst acc @ concat (map (rule_issues rules element) names),
      snd acc @ filter (rule_ran rules element) names)"
proof (induction names arbitrary: acc)
  case Nil
  show ?case by simp
next
  case (Cons n ns)
  show ?case
    by (simp add: Cons.IH) (simp add: check_step_eq)
qed

lemma py_get_Inr_iff: "(\<exists>v. py_get x k dflt = Inr v) \<longleftrightarrow> is_dict x"
  by (cases x) simp_all

lemma validate_element_returns_iff:
  "(\<exists>r. validate_element self element checks = Inr r) \<longleftrightarrow> attributes_ok element"
proof (cases element)
  case (PDict d)
  show ?thesis
  proof (cases "map_of d ''attributes''")
    case None
    with PDict show ?thesis
      by (simp add: validate_element_def attributes_ok_def bind_err_def Let_def)
  next
    case (Some a)
    with PDict show ?thesis
      by (cases a) (simp_all add: validate_element_def attributes_ok_def bind_err_def Let_def)
  qed
qed (simp_all add: validate_element_def attributes_ok_def bind_err_def Let_def)

lemma validate_element_fields:
  assumes "validate_element self element checks = Inr r"
  shows "issues r = concat (map (rule_issues (validation_rules self) element) (requested self checks))"
    and "checks_performed r = filter (rule_ran (validation_rules self) element) (requested self checks)"
    and "passed r = (filter (\<lambda>i. severity i = CRITICAL \<or> severity i = HIGH) (issues r) = [])"
  using assms
  by (auto simp: validate_element_def bind_err_def Let_def foldl_check_step requested_def
           split: sum.splits)

lemma mk_issue_sel [simp]:
  "issue_type (mk_issue sel ty sev cat msg descr rec g) = ty"
  "severity (mk_issue sel ty sev cat msg descr rec g) = sev"
  "category (mk_issue sel ty sev cat msg descr rec g) = cat"
  "element_selector (mk_issue sel ty sev cat msg descr rec g) = sel"
  by (simp_all add: mk_issue_def)

lemmas py_defs = bind_err_def py_if_def py_and_def py_or_def py_not_def py_lt_def
  lower_def lower_char_def upper_chars_def lower_chars_def strip_def is_space_def

lemmas rule_defs = check_accessibility_basic_def check_accessibility_advanced_def
  check_form_elements_def check_links_def check_images_def check_interactive_elements_def
  check_text_content_def check_visual_layout_def check_performance_indicators_def

lemma names_init: "map fst (validation_rules (init cfg)) =
  [''accessibility_basic'', ''accessibility_advanced'', ''form_validation'', ''link_validation'',
   ''image_validation'', ''interactive_elements'', ''text_content'', ''visual_layout'', ''performance'']"
  by (simp add: init_def load_validation_rules_def Let_def)

lemma rule_ran_iff:
  "rule_ran rules element name \<longleftrightarrow>
     (\<exists>f found. map_of rules name = Some f \<and> f element = Inr found)"
  by (auto simp: rule_ran_def split: option.splits sum.splits)


lemma rule_unregistered:
  "name \<notin> set (map fst rules) \<Longrightarrow>
   rule_issues rules element name = [] \<and> \<not> rule_ran rules element name"
proof -
  assume "name \<notin> set (map fst rules)"
  then have "map_of rules name = None"
    by (simp add: map_of_eq_None_iff)
  then show ?thesis
    by (simp add: rule_issues_def rule_ran_def)
qed

lemma validate_element_names_cong:
  assumes "concat (map (rule_issues (validation_rules self) element) ns) =
           concat (map (rule_issues (validation_rules self) element) ns')"
      and "filter (rule_ran (validation_rules self) element) ns =
           filter (rule_ran (validation_rules self) element) ns'"
  shows "validate_element self element (Some ns) = validate_element self element (Some ns')"
  using assms by (simp add: validate_element_def Let_def foldl_check_step)

lemmas validate_defs = validate_element_def init_def load_validation_rules_def check_step_def
  Let_def

section \<open>Pass status\<close>

text \<open>
  C1: in every result that \<^const>\<open>validate_element\<close> returns, \<^const>\<open>passed\<close> holds if and
  only if no issue of the result has the severity critical or high; issues of the
  severities medium, low and info alone leave \<^const>\<open>passed\<close> true.
\<close>

theorem passed_iff_no_critical_or_high:
  assumes "validate_element self element checks = Inr r"
  shows "(passed r \<longleftrightarrow> \<not> (\<exists>i \<in> set (issues r). severity i = CRITICAL \<or> severity i = HIGH)) \<and>
         ((\<forall>i \<in> set (issues r). severity i = MEDIUM \<or> severity i = LOW \<or> severity i = INFO)
            \<longrightarrow> passed r)"
proof -
  have "passed r = (filter (\<lambda>i. severity i = CRITICAL \<or> severity i = HIGH) (issues r) = [])"
    using validate_element_fields(3) [OF assms] .
  then show ?thesis
    by (auto simp: filter_empty_conv)
qed

text \<open>
  At the image without attributes, the rule \<^verbatim>\<open>accessibility_basic\<close> alone reports one
  issue of severity high, and the element does not pass; the rule
  \<^verbatim>\<open>image_validation\<close> alone reports two issues of severity low, and the element passes.
\<close>

theorem passed_iff_no_critical_or_high_witness:
  "(\<exists>r. validate_element (init PNone) img_element (Some [''accessibility_basic'']) = Inr r \<and>
        map severity (issues r) = [HIGH] \<and> \<not> passed r) \<and>
   (\<exists>r. validate_element (init PNone) img_element (Some [''image_validation'']) = Inr r \<and>
        map severity (issues r) = [LOW, LOW] \<and> passed r)"
proof -
  obtain r where r:
    "validate_element (init PNone) img_element (Some [''accessibility_basic'']) = Inr r"
    using validate_element_returns_iff [of "init PNone" img_element "Some [''accessibility_basic'']"]
    by (auto simp: attributes_ok_def img_element_def)
  have "map severity (issues r) = [HIGH]"
    using r by (auto simp: validate_defs img_element_def check_accessibility_basic_def py_defs)
  with passed_iff_no_critical_or_high [OF r] r
  have high: "\<exists>r. validate_element (init PNone) img_element (Some [''accessibility_basic'']) = Inr r \<and>
        map severity (issues r) = [HIGH] \<and> \<not> passed r"
    by auto
  obtain r' where r':
    "validate_element (init PNone) img_element (Some [''image_validation'']) = Inr r'"
    using validate_element_returns_iff [of "init PNone" img_element "Some [''image_validation'']"]
    by (auto simp: attributes_ok_def img_element_def)
  have low: "map severity (issues r') = [LOW, LOW]"
    using r' by (auto simp: validate_defs img_element_def check_images_def py_defs)
  have "severity i = LOW" if "i \<in> set (issues r')" for i
  proof -
    from that have "severity i \<in> set (map severity (issues r'))" by simp
    with low show ?thesis by simp
  qed
  with passed_iff_no_critical_or_high [OF r'] have "passed r'"
    by blast
  with r' low
  have "\<exists>r. validate_element (init PNone) img_element (Some [''image_validation'']) = Inr r \<and>
        map severity (issues r) = [LOW, LOW] \<and> passed r"
    by auto
  with high show ?thesis
    by (rule conjI)
qed

section \<open>Faults of a rule\<close>



section \<open>Names that are not registered\<close>

text \<open>
  C8: requesting names that the registry does not have changes nothing: the call returns
  what it returns for the registered names among the requested ones. In a returned
  result \<^const>\<open>checks_performed\<close> is the list of the requested names whose rule is
  registered and returned, in the order of the request; so it is a subset of those.
\<close>

theorem unregistered_names_are_skipped:
  "validate_element self element (Some names) =
     validate_element self element
       (Some (filter (\<lambda>n. n \<in> set (map fst (validation_rules self))) names)) \<and>
   (\<forall>r. validate_element self element (Some names) = Inr r \<longrightarrow>
      checks_performed r =
        filter (\<lambda>n. \<exists>f found. map_of (validation_rules self) n = Some f \<and> f element = Inr found)
          names \<and>
      set (checks_performed r) \<subseteq>
        {n \<in> set names. n \<in> set (map fst (validation_rules self)) \<and>
           (\<exists>f found. map_of (validation_rules self) n = Some f \<and> f element = Inr found)})"
proof -
  let ?rules = "validation_rules self"
  let ?reg = "\<lambda>n. n \<in> set (map fst ?rules)"
  have "concat (map (rule_issues ?rules element) (filter ?reg names)) =
        concat (map (rule_issues ?rules element) names)"
    by (induction names) (simp_all add: rule_unregistered)
  moreover have "filter (rule_ran ?rules element) (filter ?reg names) =
        filter (rule_ran ?rules element) names"
    by (induction names) (simp_all add: rule_unregistered)
  ultimately have skip: "validate_element self element (Some names) =
      validate_element self element (Some (filter ?reg names))"
    by (intro validate_element_names_cong) simp_all
  have ran: "checks_performed r =
      filter (\<lambda>n. \<exists>f found. map_of ?rules n = Some f \<and> f element = Inr found) names"
    if "validate_element self element (Some names) = Inr r" for r
  proof -
    have "rule_ran ?rules element =
          (\<lambda>n. \<exists>f found. map_of ?rules n = Some f \<and> f element = Inr found)"
      by (rule ext) (rule rule_ran_iff)
    with validate_element_fields(2) [OF that] show ?thesis
      by (simp add: requested_def)
  qed
  have "set (checks_performed r) \<subseteq>
        {n \<in> set names. ?reg n \<and> (\<exists>f found. map_of ?rules n = Some f \<and> f element = Inr found)}"
    if "validate_element self element (Some names) = Inr r" for r
    using ran [OF that] by (auto dest: map_of_SomeD intro: rev_image_eqI)
  with skip ran show ?thesis by blast
qed

theorem unregistered_names_are_skipped_witness:
  "validate_element (init PNone) (PDict []) (Some [''no_such_rule'', ''text_content'']) =
     validate_element (init PNone) (PDict []) (Some [''text_content'']) \<and>
   map_sum id checks_performed
     (validate_element (init PNone) (PDict []) (Some [''text_content''])) = Inr [''text_content'']"
proof -
  have run: "map_sum id checks_performed
     (validate_element (init PNone) (PDict []) (Some [''text_content''])) = Inr [''text_content'']"
    by (simp add: validate_defs check_text_content_def py_defs)
  from unregistered_names_are_skipped
         [of "init PNone" "PDict []" "[''no_such_rule'', ''text_content'']"] run
  show ?thesis by (simp add: names_init)
qed

section \<open>Repeated names\<close>

text \<open>
  A name requested twice is run twice and recorded twice.
\<close>

theorem checks_performed_distinct_counterexample:
  "map_sum id checks_performed
     (validate_element (init PNone) (PDict []) (Some [''text_content'', ''text_content''])) =
   Inr [''text_content'', ''text_content'']"
  by (simp add: validate_defs check_text_content_def py_defs)

text \<open>
  C9, amended: a name occurs in \<^const>\<open>checks_performed\<close> at most as often as it was
  requested. So a request without repetition gives a \<^const>\<open>checks_performed\<close> without
  repetition, and so does the call that leaves the names out, whatever the configuration.
\<close>

theorem checks_performed_distinct:
  "(\<forall>r. validate_element self element (Some names) = Inr r \<longrightarrow>
      (distinct names \<longrightarrow> distinct (checks_performed r)) \<and>
      (\<forall>n. count_list (checks_performed r) n \<le> count_list names n)) \<and>
   (\<forall>r. validate_element (init cfg) element None = Inr r \<longrightarrow> distinct (checks_performed r))"
proof -
  have count: "count_list (filter P xs) n \<le> count_list xs n" for P and xs :: "string list" and n
    by (induction xs) simp_all
  have a: "(distinct names \<longrightarrow> distinct (checks_performed r)) \<and>
      (\<forall>n. count_list (checks_performed r) n \<le> count_list names n)"
    if "validate_element self element (Some names) = Inr r" for r
    using validate_element_fields(2) [OF that] by (simp add: requested_def count)
  have b: "distinct (checks_performed r)"
    if "validate_element (init cfg) element None = Inr r" for r
    using validate_element_fields(2) [OF that] by (simp add: requested_def names_init)
  from a b show ?thesis by blast
qed

theorem checks_performed_distinct_witness:
  "distinct [''text_content'', ''visual_layout''] \<and>
   map_sum id (distinct \<circ> checks_performed)
     (validate_element (init PNone) (PDict []) (Some [''text_content'', ''visual_layout''])) =
   Inr True"
proof -
  obtain r where r: "validate_element (init PNone) (PDict [])
      (Some [''text_content'', ''visual_layout'']) = Inr r"
    using validate_element_returns_iff
            [of "init PNone" "PDict []" "Some [''text_content'', ''visual_layout'']"]
    by (auto simp: attributes_ok_def)
  have d: "distinct [''text_content'', ''visual_layout'']" by simp
  from checks_performed_distinct [of "init PNone" "PDict []" "[''text_content'', ''visual_layout'']"]
    r d have "distinct (checks_performed r)" by blast
  with r d show ?thesis by simp
qed

section \<open>The summary\<close>

lemma dict_set_sum:
  "sum_list (map snd (dict_set d k (dict_get d k 0 + 1))) = sum_list (map snd d) + 1"
  by (induction d) (auto simp: dict_get_def)

lemma dict_get_dict_set:
  "dict_get (dict_set d k v) k' dflt = (if k' = k then v else dict_get d k' dflt)"
  by (induction d) (auto simp: dict_get_def)

lemma dict_get_empty: "dict_get [] k dflt = dflt"
  by (simp add: dict_get_def)

lemma count_issue_sum:
  "sum_list (map snd (fst (count_issue hist issue))) = sum_list (map snd (fst hist)) + 1"
  "sum_list (map snd (snd (count_issue hist issue))) = sum_list (map snd (snd hist)) + 1"
  by (simp_all add: count_issue_def Let_def dict_set_sum)

lemma count_issue_cell:
  "dict_get (fst (count_issue hist issue)) k 0 =
     dict_get (fst hist) k 0 + (if severity_value (severity issue) = k then 1 else 0)"
  "dict_get (snd (count_issue hist issue)) k 0 =
     dict_get (snd hist) k 0 + (if category_value (category issue) = k then 1 else 0)"
  by (auto simp: count_issue_def Let_def dict_get_dict_set)

lemma foldl_count_issue_sum:
  "sum_list (map snd (fst (foldl count_issue hist found))) =
     sum_list (map snd (fst hist)) + int (length found)"
  "sum_list (map snd (snd (foldl count_issue hist found))) =
     sum_list (map snd (snd hist)) + int (length found)"
  by (induction found arbitrary: hist) (simp_all add: count_issue_sum)

lemma foldl_count_issue_cell:
  "dict_get (fst (foldl count_issue hist found)) k 0 =
     dict_get (fst hist) k 0 +
     int (length (filter (\<lambda>i. severity_value (severity i) = k) found))"
  "dict_get (snd (foldl count_issue hist found)) k 0 =
     dict_get (snd hist) k 0 +
     int (length (filter (\<lambda>i. category_value (category i) = k) found))"
  by (induction found arbitrary: hist) (simp_all add: count_issue_cell)

text \<open>
  C6: the summary of no results has the count zero everywhere, the pass rate \<^verbatim>\<open>0\<close> of the
  \<^verbatim>\<open>else\<close> branch (no division takes place) and two empty histograms.
\<close>

theorem summary_of_no_results:
  "get_validation_summary [] =
     \<lparr>total_elements = 0, passed_elements = 0, failed_elements = 0, pass_rate = RateInt 0,
      total_issues = 0, issues_by_severity = [], issues_by_category = [],
      critical_issues = 0, high_issues = 0\<rparr>"
  by (simp add: get_validation_summary_def dict_get_def)

text \<open>
  C7: the summary counts every result once, as passed or as failed, and every issue once
  in each histogram: the number of issues is the sum of the counts of either histogram,
  and the count under a key is the number of issues with that severity, or category.
\<close>

theorem summary_counts:
  "total_elements (get_validation_summary results) = int (length results) \<and>
   passed_elements (get_validation_summary results) +
     failed_elements (get_validation_summary results) =
     total_elements (get_validation_summary results) \<and>
   total_issues (get_validation_summary results) =
     sum_list (map snd (issues_by_severity (get_validation_summary results))) \<and>
   total_issues (get_validation_summary results) =
     sum_list (map snd (issues_by_category (get_validation_summary results))) \<and>
   (\<forall>k. dict_get (issues_by_severity (get_validation_summary results)) k 0 =
      int (length (filter (\<lambda>i. severity_value (severity i) = k) (concat (map issues results))))) \<and>
   (\<forall>k. dict_get (issues_by_category (get_validation_summary results)) k 0 =
      int (length (filter (\<lambda>i. category_value (category i) = k) (concat (map issues results)))))"
  by (simp add: get_validation_summary_def Let_def foldl_count_issue_sum foldl_count_issue_cell
        dict_get_empty)

section \<open>The configuration\<close>

lemma rules_ignore_self:
  "check_accessibility_basic c = check_accessibility_basic c'"
  "check_accessibility_advanced c = check_accessibility_advanced c'"
  "check_form_elements c = check_form_elements c'"
  "check_links c = check_links c'"
  "check_images c = check_images c'"
  "check_interactive_elements c = check_interactive_elements c'"
  "check_text_content c = check_text_content c'"
  "check_visual_layout c = check_visual_layout c'"
  "check_performance_indicators c = check_performance_indicators c'"
  unfolding rule_defs by (rule refl)+

lemma validation_rules_init:
  "validation_rules (init cfg) = load_validation_rules c"
proof -
  have "load_validation_rules c' = load_validation_rules c" for c'
    unfolding load_validation_rules_def
    using rules_ignore_self [of c' c] by (simp only:)
  then show ?thesis
    by (simp add: init_def Let_def)
qed

lemma config_init: "config (init cfg) = (if truthy cfg then cfg else get_default_config)"
  by (simp add: init_def Let_def)

lemma validate_element_init:
  "validate_element (init cfg) element checks = validate_element (init cfg') element checks"
  unfolding validate_element_def validation_rules_init [of cfg PNone]
    validation_rules_init [of cfg' PNone] ..

lemmas eval_defs = validate_element_def validation_rules_init [of _ PNone]
  load_validation_rules_def check_step_def Let_def rule_defs py_defs

text \<open>
  With the four flags of the rule groups false, the call without names still runs all
  nine rules, and the rules of the four groups report their issues.
\<close>

theorem default_checks_ignore_config_counterexample:
  "py_get (config (init disabled_groups_config)) ''check_performance'' (PBool True) = Inr (PBool False) \<and>
   py_get (config (init disabled_groups_config)) ''check_usability'' (PBool True) = Inr (PBool False) \<and>
   py_get (config (init disabled_groups_config)) ''check_visual'' (PBool True) = Inr (PBool False) \<and>
   py_get (config (init disabled_groups_config)) ''check_security'' (PBool True) = Inr (PBool False) \<and>
   map_sum id checks_performed
     (validate_element (init disabled_groups_config) styled_link_element None) = Inr rule_names \<and>
   map_sum id (map issue_type \<circ> issues)
     (validate_element (init disabled_groups_config) styled_link_element None) =
   Inr [''generic_link_text'', ''external_link_security'', ''small_touch_target'',
        ''element_outside_viewport'', ''inline_styles'']"
proof -
  have "py_get (config (init disabled_groups_config)) k (PBool True) = Inr (PBool False)"
    if "k \<in> {''check_performance'', ''check_usability'', ''check_visual'', ''check_security''}" for k
    using that by (auto simp: config_init disabled_groups_config_def)
  moreover have "map_sum id checks_performed
     (validate_element (init disabled_groups_config) styled_link_element None) = Inr rule_names"
    by (simp add: eval_defs styled_link_element_def rule_names_def)
  moreover have "map_sum id (map issue_type \<circ> issues)
     (validate_element (init disabled_groups_config) styled_link_element None) =
   Inr [''generic_link_text'', ''external_link_security'', ''small_touch_target'',
        ''element_outside_viewport'', ''inline_styles'']"
    by (simp add: eval_defs styled_link_element_def)
  ultimately show ?thesis by simp
qed

text \<open>
  C3, amended: no rule and no part of the validator reads the configuration. The registry
  has the nine rules whatever the configuration, and every call returns what it returns
  under the default configuration.
\<close>

theorem default_checks_ignore_config:
  "map fst (validation_rules (init cfg)) = rule_names \<and>
   validate_element (init cfg) element checks = validate_element (init PNone) element checks"
  using validate_element_init [of cfg element checks PNone]
  by (simp add: names_init rule_names_def)

section \<open>The types of issue of each rule\<close>

lemma py_if_types:
  assumes "py_if c body = Inr found" and "i \<in> set found"
  obtains found' where "body = Inr found'" and "i \<in> set found'"
  using assms by (auto simp: py_if_def bind_err_def split: sum.splits if_splits)

lemma bind_err_Inr:
  assumes "bind_err m f = Inr y"
  obtains x where "m = Inr x" and "f x = Inr y"
  using assms by (auto simp: bind_err_def split: sum.splits)

lemma aria_loop_types:
  "aria_loop selector items acc = Inr found \<Longrightarrow> i \<in> set found \<Longrightarrow>
   i \<in> set acc \<or> issue_type i = ''empty_aria_attribute''"
proof (induction selector items acc rule: aria_loop.induct)
  case (1 selector found)
  then show ?case by simp
next
  case (2 selector attr_name attr_value rest acc)
  then show ?case
    by (auto split: if_splits sum.splits)
qed

lemma basic_types:
  "check_accessibility_basic c e = Inr found \<Longrightarrow> i \<in> set found \<Longrightarrow>
   issue_type i \<in> {''missing_alt_text'', ''missing_input_id'', ''button_no_accessible_name''}"
  unfolding check_accessibility_basic_def
  by (auto elim!: bind_err_Inr py_if_types)

lemma advanced_types:
  "check_accessibility_advanced c e = Inr found \<Longrightarrow> i \<in> set found \<Longrightarrow>
   issue_type i \<in> {''empty_heading'', ''empty_aria_attribute''}"
  unfolding check_accessibility_advanced_def
  by (auto elim!: bind_err_Inr py_if_types dest!: aria_loop_types)

lemma form_types:
  "check_form_elements c e = Inr found \<Longrightarrow> i \<in> set found \<Longrightarrow>
   issue_type i \<in> {''missing_aria_required'', ''email_input_no_validation''}"
  unfolding check_form_elements_def
  by (auto elim!: bind_err_Inr py_if_types)

lemma links_types:
  "check_links c e = Inr found \<Longrightarrow> i \<in> set found \<Longrightarrow>
   issue_type i \<in> {''empty_link'', ''generic_link_text'', ''external_link_security''}"
  unfolding check_links_def
  by (auto elim!: bind_err_Inr py_if_types)

lemma images_types:
  "check_images c e = Inr found \<Longrightarrow> i \<in> set found \<Longrightarrow>
   issue_type i \<in> {''missing_loading_attribute'', ''missing_image_dimensions''}"
  unfolding check_images_def
  by (auto elim!: bind_err_Inr py_if_types)

lemma interactive_types:
  "check_interactive_elements c e = Inr found \<Longrightarrow> i \<in> set found \<Longrightarrow>
   issue_type i \<in> {''small_touch_target''}"
  unfolding check_interactive_elements_def
  by (auto elim!: bind_err_Inr py_if_types simp: Let_def)

lemma text_types:
  "check_text_content c e = Inr found \<Longrightarrow> i \<in> set found \<Longrightarrow>
   issue_type i \<in> {''long_text_no_breaks''}"
  unfolding check_text_content_def
  by (auto elim!: bind_err_Inr py_if_types)

lemma visual_types:
  "check_visual_layout c e = Inr found \<Longrightarrow> i \<in> set found \<Longrightarrow>
   issue_type i \<in> {''element_outside_viewport''}"
  unfolding check_visual_layout_def
  by (auto elim!: bind_err_Inr py_if_types)

lemma performance_types:
  "check_performance_indicators c e = Inr found \<Longrightarrow> i \<in> set found \<Longrightarrow>
   issue_type i \<in> {''inline_styles''}"
  unfolding check_performance_indicators_def
  by (auto elim!: bind_err_Inr py_if_types)

section \<open>The touch target\<close>

lemma rule_issuesE:
  assumes "i \<in> set (rule_issues rules element name)"
  obtains f found where "map_of rules name = Some f" and "f element = Inr found"
    and "i \<in> set found"
proof (cases "map_of rules name")
  case None
  with assms show ?thesis by (simp add: rule_issues_def)
next
  case (Some f)
  with assms that show ?thesis
    by (cases "f element") (simp_all add: rule_issues_def)
qed

lemma small_touch_target_rule:
  assumes "i \<in> set (rule_issues (validation_rules (init cfg)) element name)"
      and "issue_type i = ''small_touch_target''"
  shows "name = ''interactive_elements''"
proof (rule ccontr)
  assume other: "name \<noteq> ''interactive_elements''"
  let ?c = "config (init cfg)"
  have rules: "validation_rules (init cfg) = load_validation_rules ?c"
    by (simp add: init_def Let_def)
  from assms(1) obtain f found where reg: "map_of (load_validation_rules ?c) name = Some f"
    and f: "f element = Inr found" "i \<in> set found"
    unfolding rules by (rule rule_issuesE)
  from map_of_SomeD [OF reg] other
  have "f \<in> {check_accessibility_basic ?c, check_accessibility_advanced ?c,
      check_form_elements ?c, check_links ?c, check_images ?c,
      check_text_content ?c, check_visual_layout ?c, check_performance_indicators ?c}"
    by (auto simp: load_validation_rules_def)
  then have "issue_type i \<noteq> ''small_touch_target''"
    using f basic_types [of ?c element found i] advanced_types [of ?c element found i]
      form_types [of ?c element found i] links_types [of ?c element found i]
      images_types [of ?c element found i] text_types [of ?c element found i]
      visual_types [of ?c element found i] performance_types [of ?c element found i]
    by (elim insertE emptyE) auto
  with assms(2) show False by simp
qed

lemma interactive_result:
  assumes "lowered_tag element = Inr tag"
      and "tag \<in> set [''button'', ''a'', ''input'', ''select'', ''textarea'']"
      and "rect_number element ''width'' = Inr w"
      and "rect_number element ''height'' = Inr h"
  shows "\<exists>found. check_interactive_elements c element = Inr found \<and>
           (''small_touch_target'' \<in> set (map issue_type found) \<longleftrightarrow> w < 44 \<or> h < 44)"
proof -
  from assms(3) obtain rect wv where rect: "py_get element ''bounding_rect'' (PDict []) = Inr rect"
    and wv: "py_get rect ''width'' (PInt 0) = Inr wv" "num_of wv = Some w"
    unfolding rect_number_def by (auto elim!: bind_err_Inr split: option.splits)
  from assms(4) rect obtain hv where
    hv: "py_get rect ''height'' (PInt 0) = Inr hv" "num_of hv = Some h"
    unfolding rect_number_def by (auto elim!: bind_err_Inr split: option.splits)
  from rect obtain d where d: "element = PDict d"
    by (cases element) simp_all
  then obtain sel where sel: "py_get element ''css_selector'' (PStr ''unknown'') = Inr sel"
    by simp
  from assms(1) have tag: "bind_err (py_get element ''tag_name'' (PStr [])) py_lower = Inr tag"
    by (simp add: lowered_tag_def)
  show ?thesis
    unfolding check_interactive_elements_def tag rect sel
    using assms(2) wv hv
    by (simp add: bind_err_def py_if_def py_or_def py_lt_def Let_def)
qed

text \<open>
  With \<^verbatim>\<open>minimum_touch_target\<close> 48, a button of 46 by 46 pixels is below the configured
  threshold and still has no issue.
\<close>

theorem small_touch_target_iff_counterexample:
  "py_get (config (init touch_48_config)) ''minimum_touch_target'' (PInt 44) = Inr (PInt 48) \<and>
   lowered_tag button_46_element = Inr ''button'' \<and>
   rect_number button_46_element ''width'' = Inr 46 \<and>
   rect_number button_46_element ''height'' = Inr 46 \<and>
   map_sum id (map issue_type \<circ> issues)
     (validate_element (init touch_48_config) button_46_element None) = Inr []"
proof -
  have "py_get (config (init touch_48_config)) ''minimum_touch_target'' (PInt 44) = Inr (PInt 48)"
    by (simp add: config_init touch_48_config_def)
  moreover have "lowered_tag button_46_element = Inr ''button''"
    by (simp add: lowered_tag_def button_46_element_def py_defs)
  moreover have "rect_number button_46_element ''width'' = Inr 46"
    "rect_number button_46_element ''height'' = Inr 46"
    by (simp_all add: rect_number_def button_46_element_def bind_err_def)
  moreover have "map_sum id (map issue_type \<circ> issues)
     (validate_element (init touch_48_config) button_46_element None) = Inr []"
    by (simp add: eval_defs button_46_element_def)
  ultimately show ?thesis by simp
qed

text \<open>
  C4, amended: the threshold is the constant 44, whatever the configuration. For an
  element whose lower-cased tag is one of button, a, input, select, textarea and whose
  width and height in the bounding rect are numbers (an absent one is 0), the rule of
  the interactive elements returns, and it reports \<^verbatim>\<open>small_touch_target\<close> if and only
  if the width or the height is below 44; the same holds of the issues of the call that
  leaves the names out, since no other rule reports that type.
\<close>

theorem small_touch_target_iff:
  assumes "lowered_tag element = Inr tag"
      and "tag \<in> set [''button'', ''a'', ''input'', ''select'', ''textarea'']"
      and "rect_number element ''width'' = Inr w"
      and "rect_number element ''height'' = Inr h"
  shows "(\<exists>found. check_interactive_elements (config (init cfg)) element = Inr found \<and>
            (''small_touch_target'' \<in> set (map issue_type found) \<longleftrightarrow> w < 44 \<or> h < 44)) \<and>
         (\<forall>r. validate_element (init cfg) element None = Inr r \<longrightarrow>
            (''small_touch_target'' \<in> set (map issue_type (issues r)) \<longleftrightarrow> w < 44 \<or> h < 44))"
proof -
  let ?c = "config (init cfg)"
  let ?rules = "validation_rules (init cfg)"
  from interactive_result [OF assms, of ?c] obtain found
    where found: "check_interactive_elements ?c element = Inr found"
      and iff: "''small_touch_target'' \<in> set (map issue_type found) \<longleftrightarrow> w < 44 \<or> h < 44"
    by blast
  have own: "rule_issues ?rules element ''interactive_elements'' = found"
    using found by (simp add: rule_issues_def init_def Let_def load_validation_rules_def)
  have "''small_touch_target'' \<in> set (map issue_type (issues r)) \<longleftrightarrow> w < 44 \<or> h < 44"
    if r: "validate_element (init cfg) element None = Inr r" for r
  proof -
    have all: "issues r = concat (map (rule_issues ?rules element) (requested (init cfg) None))"
      using validate_element_fields(1) [OF r] .
    have names: "''interactive_elements'' \<in> set (requested (init cfg) None)"
      by (simp add: requested_def names_init)
    have "''small_touch_target'' \<in> set (map issue_type (issues r)) \<longleftrightarrow>
          ''small_touch_target'' \<in> set (map issue_type found)"
    proof
      assume "''small_touch_target'' \<in> set (map issue_type (issues r))"
      then obtain i name where i: "i \<in> set (rule_issues ?rules element name)"
        and ty: "issue_type i = ''small_touch_target''"
        unfolding all by auto
      from small_touch_target_rule [OF i ty] i own have "i \<in> set found" by simp
      with ty show "''small_touch_target'' \<in> set (map issue_type found)" by force
    next
      assume "''small_touch_target'' \<in> set (map issue_type found)"
      then obtain i where "i \<in> set found" "issue_type i = ''small_touch_target''" by auto
      with own names show "''small_touch_target'' \<in> set (map issue_type (issues r))"
        unfolding all by force
    qed
    with iff show ?thesis by simp
  qed
  with found iff show ?thesis by blast
qed

text \<open>
  A button of 43.5 by 50 pixels, with the tag in upper case, under the threshold 48 of the
  configuration.
\<close>

theorem small_touch_target_iff_witness:
  "lowered_tag small_button_element = Inr ''button'' \<and>
   rect_number small_button_element ''width'' = Inr 43.5 \<and>
   rect_number small_button_element ''height'' = Inr 50 \<and>
   (\<exists>r. validate_element (init touch_48_config) small_button_element None = Inr r \<and>
        ''small_touch_target'' \<in> set (map issue_type (issues r)))"
proof -
  have tag: "lowered_tag small_button_element = Inr ''button''"
    by (simp add: lowered_tag_def small_button_element_def py_defs)
  have member: "''button'' \<in> set [''button'', ''a'', ''input'', ''select'', ''textarea'']"
    by simp
  have w: "rect_number small_button_element ''width'' = Inr 43.5"
    by (simp add: rect_number_def small_button_element_def bind_err_def)
  have h: "rect_number small_button_element ''height'' = Inr 50"
    by (simp add: rect_number_def small_button_element_def bind_err_def)
  obtain r where r: "validate_element (init touch_48_config) small_button_element None = Inr r"
    using validate_element_returns_iff [of "init touch_48_config" small_button_element None]
    by (auto simp: attributes_ok_def small_button_element_def)
  from small_touch_target_iff [OF tag member w h, of touch_48_config] r
  have "''small_touch_target'' \<in> set (map issue_type (issues r))"
    by simp
  with tag w h r show ?thesis by blast
qed

section \<open>The image without attributes\<close>

text \<open>The image without attributes has three issues.\<close>

theorem img_without_attributes_counterexample:
  "map_sum id (length \<circ> issues) (validate_element (init PNone) img_element None) = Inr 3"
  by (simp add: eval_defs img_element_def)

text \<open>
  C5, amended: under every configuration the call without names reports, for the image
  without attributes, \<^verbatim>\<open>missing_alt_text\<close> (high, accessibility) and then, from the rule
  of the images, \<^verbatim>\<open>missing_loading_attribute\<close> and \<^verbatim>\<open>missing_image_dimensions\<close> (both
  low, performance); the element does not pass.
\<close>

theorem img_without_attributes:
  "map_sum id (map (\<lambda>i. (issue_type i, severity i, category i)) \<circ> issues)
     (validate_element (init cfg) img_element None) =
     Inr [(''missing_alt_text'', HIGH, ACCESSIBILITY),
          (''missing_loading_attribute'', LOW, PERFORMANCE),
          (''missing_image_dimensions'', LOW, PERFORMANCE)] \<and>
   map_sum id passed (validate_element (init cfg) img_element None) = Inr False"
  by (simp add: eval_defs img_element_def)

section \<open>Absent fields\<close>

lemma map_of_fill_field:
  "map_of (map fill_field d) k =
     (if k = ''bounding_rect'' then map_option fill_rect (map_of d k) else map_of d k)"
  by (induction d) (auto simp: fill_field_def)

lemma py_get_defaults:
  "py_get (with_defaults (PDict d)) ''tag_name'' (PStr []) = py_get (PDict d) ''tag_name'' (PStr [])"
  "py_get (with_defaults (PDict d)) ''attributes'' (PDict []) = py_get (PDict d) ''attributes'' (PDict [])"
  "py_get (with_defaults (PDict d)) ''text_content'' (PStr []) = py_get (PDict d) ''text_content'' (PStr [])"
  "py_get (with_defaults (PDict d)) ''is_visible'' (PBool True) = py_get (PDict d) ''is_visible'' (PBool True)"
  "py_get (with_defaults (PDict d)) ''css_selector'' dflt = py_get (PDict d) ''css_selector'' dflt"
  by (simp_all add: field_defaults_def map_add_def map_of_fill_field split: option.split)


lemma rules_defaults:
  "check_accessibility_basic c (with_defaults (PDict d)) = check_accessibility_basic c (PDict d)"
  "check_accessibility_advanced c (with_defaults (PDict d)) = check_accessibility_advanced c (PDict d)"
  "check_form_elements c (with_defaults (PDict d)) = check_form_elements c (PDict d)"
  "check_links c (with_defaults (PDict d)) = check_links c (PDict d)"
  "check_images c (with_defaults (PDict d)) = check_images c (PDict d)"
  "check_text_content c (with_defaults (PDict d)) = check_text_content c (PDict d)"
  "check_performance_indicators c (with_defaults (PDict d)) = check_performance_indicators c (PDict d)"
  unfolding rule_defs by (simp_all only: py_get_defaults)

lemma rect_cases:
  obtains "py_get (with_defaults (PDict d)) ''bounding_rect'' (PDict []) = Inr (PDict zero_rect)"
      and "py_get (PDict d) ''bounding_rect'' (PDict []) = Inr (PDict [])"
  | b where "py_get (with_defaults (PDict d)) ''bounding_rect'' (PDict []) = Inr (PDict (b @ zero_rect))"
      and "py_get (PDict d) ''bounding_rect'' (PDict []) = Inr (PDict b)"
  | "py_get (with_defaults (PDict d)) ''bounding_rect'' (PDict []) = py_get (PDict d) ''bounding_rect'' (PDict [])"
proof (cases "map_of d ''bounding_rect''")
  case None
  then show ?thesis
    using that(1) by (simp add: field_defaults_def map_add_def map_of_fill_field)
next
  case (Some a)
  then show ?thesis
    using that(2,3)
    by (cases a) (simp_all add: field_defaults_def map_add_def map_of_fill_field)
qed

lemma py_get_zero_rect:
  "py_get (PDict (b @ zero_rect)) ''x'' (PInt 0) = py_get (PDict b) ''x'' (PInt 0)"
  "py_get (PDict (b @ zero_rect)) ''y'' (PInt 0) = py_get (PDict b) ''y'' (PInt 0)"
  "py_get (PDict (b @ zero_rect)) ''width'' (PInt 0) = py_get (PDict b) ''width'' (PInt 0)"
  "py_get (PDict (b @ zero_rect)) ''height'' (PInt 0) = py_get (PDict b) ''height'' (PInt 0)"
  by (simp_all add: zero_rect_def map_add_def split: option.split)

lemma interactive_defaults:
  "check_interactive_elements c (with_defaults (PDict d)) = check_interactive_elements c (PDict d)"
proof (cases rule: rect_cases [of d])
  case 1
  then show ?thesis
    unfolding check_interactive_elements_def py_get_defaults
    using py_get_zero_rect [of "[]"] by (simp add: bind_err_def)
next
  case (2 b)
  then show ?thesis
    unfolding check_interactive_elements_def py_get_defaults
    by (simp only: bind_err_def py_get_zero_rect sum.case)
next
  case 3
  then show ?thesis
    unfolding check_interactive_elements_def py_get_defaults by simp
qed

lemma visual_defaults:
  "check_visual_layout c (with_defaults (PDict d)) = check_visual_layout c (PDict d)"
proof (cases rule: rect_cases [of d])
  case 1
  then show ?thesis
    unfolding check_visual_layout_def py_get_defaults
    using py_get_zero_rect [of "[]"] by (simp add: bind_err_def)
next
  case (2 b)
  then show ?thesis
    unfolding check_visual_layout_def py_get_defaults
    by (simp only: bind_err_def py_get_zero_rect sum.case)
next
  case 3
  then show ?thesis
    unfolding check_visual_layout_def py_get_defaults by simp
qed

lemma registered_rule_defaults:
  assumes "map_of (load_validation_rules c) name = Some f"
  shows "f (with_defaults (PDict d)) = f (PDict d)"
proof -
  from assms have "f \<in> {check_accessibility_basic c, check_accessibility_advanced c,
      check_form_elements c, check_links c, check_images c, check_interactive_elements c,
      check_text_content c, check_visual_layout c, check_performance_indicators c}"
    by (auto simp: load_validation_rules_def split: if_splits)
  then show ?thesis
    using rules_defaults [of c d] interactive_defaults [of c d] visual_defaults [of c d]
    by (elim insertE emptyE) (simp_all only:)
qed

lemma rule_contribution_defaults:
  "rule_issues (validation_rules (init cfg)) (with_defaults element) =
     rule_issues (validation_rules (init cfg)) element"
  "rule_ran (validation_rules (init cfg)) (with_defaults element) =
     rule_ran (validation_rules (init cfg)) element"
proof -
  let ?rules = "load_validation_rules (config (init cfg))"
  have rules: "validation_rules (init cfg) = ?rules"
    by (simp add: init_def Let_def)
  have same: "f (with_defaults element) = f element" if "map_of ?rules name = Some f" for f name
  proof (cases element)
    case (PDict d)
    with registered_rule_defaults [OF that] show ?thesis by (simp only:)
  qed simp_all
  show "rule_issues (validation_rules (init cfg)) (with_defaults element) =
       rule_issues (validation_rules (init cfg)) element"
    unfolding rules by (rule ext) (auto simp: rule_issues_def same split: option.split)
  show "rule_ran (validation_rules (init cfg)) (with_defaults element) =
       rule_ran (validation_rules (init cfg)) element"
    unfolding rules by (rule ext) (auto simp: rule_ran_def same split: option.split)
qed

lemma validate_element_defaults:
  "map_sum id outcome (validate_element (init cfg) (with_defaults element) checks) =
   map_sum id outcome (validate_element (init cfg) element checks)"
proof (cases element)
  case (PDict d)
  have a: "py_get (with_defaults (PDict d)) ''attributes'' (PDict []) =
           py_get (PDict d) ''attributes'' (PDict [])"
    by (rule py_get_defaults)
  have s: "py_get (with_defaults (PDict d)) ''css_selector'' (PStr ''unknown'') =
           py_get (PDict d) ''css_selector'' (PStr ''unknown'')"
    by (rule py_get_defaults)
  have f: "foldl (check_step (validation_rules (init cfg)) (with_defaults (PDict d))) ([], []) names =
           foldl (check_step (validation_rules (init cfg)) (PDict d)) ([], []) names" for names
    unfolding foldl_check_step rule_contribution_defaults ..
  show ?thesis
    unfolding PDict validate_element_def Let_def f a s
    by (simp add: bind_err_def outcome_def split: sum.split)
qed simp_all

subsection \<open>What a record holds\<close>

lemma is_strE: assumes "is_str v" obtains s where "v = PStr s"
  using assms by (cases v) simp_all

lemma dict_ofE:
  assumes "dict_of P v"
  obtains d where "v = PDict d" and "list_all (\<lambda>kv. P (snd kv)) d"
  using assms by (cases v) (simp_all add: dict_of_def)

lemma element_recordE:
  assumes "element_record element"
  obtains t a s b sel vis where
    "py_get element ''tag_name'' (PStr []) = Inr (PStr t)"
    "py_get element ''attributes'' (PDict []) = Inr (PDict a)"
    "list_all (\<lambda>kv. is_str (snd kv)) a"
    "py_get element ''text_content'' (PStr []) = Inr (PStr s)"
    "py_get element ''bounding_rect'' (PDict []) = Inr (PDict b)"
    "list_all (\<lambda>kv. is_num (snd kv)) b"
    "py_get element ''css_selector'' (PStr ''unknown'') = Inr sel"
    "py_get element ''is_visible'' (PBool True) = Inr vis"
proof -
  from assms obtain d where d: "element = PDict d"
    and f: "field_is is_str d ''tag_name''" "field_is (dict_of is_str) d ''attributes''"
      "field_is is_str d ''text_content''" "field_is (dict_of is_num) d ''bounding_rect''"
    by (cases element) (simp_all add: element_record_def)
  from f(1) obtain t where t: "py_get (PDict d) ''tag_name'' (PStr []) = Inr (PStr t)"
    by (cases "map_of d ''tag_name''") (auto simp: field_is_def elim: is_strE)
  from f(2) obtain a where a: "py_get (PDict d) ''attributes'' (PDict []) = Inr (PDict a)"
    "list_all (\<lambda>kv. is_str (snd kv)) a"
    by (cases "map_of d ''attributes''") (auto simp: field_is_def elim: dict_ofE)
  from f(3) obtain s where s: "py_get (PDict d) ''text_content'' (PStr []) = Inr (PStr s)"
    by (cases "map_of d ''text_content''") (auto simp: field_is_def elim: is_strE)
  from f(4) obtain b where b: "py_get (PDict d) ''bounding_rect'' (PDict []) = Inr (PDict b)"
    "list_all (\<lambda>kv. is_num (snd kv)) b"
    by (cases "map_of d ''bounding_rect''") (auto simp: field_is_def elim: dict_ofE)
  show ?thesis
    using that [of t a s b] t a s b unfolding d by simp
qed

lemma str_dict_lookup:
  assumes "list_all (\<lambda>kv. is_str (snd kv)) a" and "map_of a k = Some v"
  obtains s where "v = PStr s"
proof -
  from assms(2) have "(k, v) \<in> set a" by (rule map_of_SomeD)
  with assms(1) have "is_str v" by (auto simp: list_all_iff)
  then show ?thesis using that by (rule is_strE)
qed

lemma str_dict_subscript:
  assumes "list_all (\<lambda>kv. is_str (snd kv)) a" and "k \<in> fst ` set a"
  obtains s where "py_subscript (PDict a) k = Inr (PStr s)"
proof -
  from assms(2) obtain v where v: "map_of a k = Some v"
    by (cases "map_of a k") (auto simp: map_of_eq_None_iff)
  with assms(1) obtain s where "v = PStr s" by (rule str_dict_lookup)
  with v that show ?thesis by simp
qed

lemma str_dict_get:
  assumes "list_all (\<lambda>kv. is_str (snd kv)) a"
  obtains s where "py_get (PDict a) k (PStr dflt) = Inr (PStr s)"
proof (cases "map_of a k")
  case None
  then show ?thesis using that by simp
next
  case (Some v)
  with assms obtain s where "v = PStr s" by (rule str_dict_lookup)
  with Some that show ?thesis by simp
qed

lemma num_dict_get:
  assumes "list_all (\<lambda>kv. is_num (snd kv)) b"
  obtains v q where "py_get (PDict b) k (PInt 0) = Inr v" and "num_of v = Some q"
proof (cases "map_of b k")
  case None
  then show ?thesis using that [of "PInt 0" 0] by simp
next
  case (Some v)
  then have "(k, v) \<in> set b" by (rule map_of_SomeD)
  with assms have "is_num v" by (auto simp: list_all_iff)
  then obtain q where "num_of v = Some q" by (auto simp: is_num_def)
  with Some that show ?thesis by simp
qed

subsection \<open>When a rule returns\<close>

text \<open>
  A rule is a chain of reads and conditions, each of which may raise. Whether it raises
  is computed along the chain: a step raises if its first part raises, or if what follows
  raises on the value of the first part.
\<close>

lemma isl_bind_err: "isl (bind_err m f) \<longleftrightarrow> isl m \<or> isl (f (projr m))"
  by (cases m) (simp_all add: bind_err_def)

lemma isl_py_if: "isl (py_if c body) \<longleftrightarrow> isl c \<or> (projr c \<and> isl body)"
  by (cases c) (simp_all add: py_if_def bind_err_def)

lemma isl_py_and: "isl (py_and a b) \<longleftrightarrow> isl a \<or> (projr a \<and> isl b)"
  by (cases a) (simp_all add: py_and_def bind_err_def)

lemma isl_py_or: "isl (py_or a b) \<longleftrightarrow> isl a \<or> (\<not> projr a \<and> isl b)"
  by (cases a) (simp_all add: py_or_def bind_err_def)

lemma isl_py_not: "isl (py_not a) \<longleftrightarrow> isl a"
  by (cases a) (simp_all add: py_not_def bind_err_def)

lemma projr_py_not: "projr (py_not (Inr x)) \<longleftrightarrow> \<not> x"
  by (simp add: py_not_def bind_err_def)

lemmas isl_cond = isl_bind_err isl_py_if isl_py_and isl_py_or isl_py_not projr_py_not

lemma str_dict_subscript_ok:
  assumes "list_all (\<lambda>kv. is_str (snd kv)) a" and "k \<in> fst ` set a"
  shows "\<not> isl (py_subscript (PDict a) k)" and "is_str (projr (py_subscript (PDict a) k))"
proof -
  from assms obtain s where "py_subscript (PDict a) k = Inr (PStr s)"
    by (rule str_dict_subscript)
  then show "\<not> isl (py_subscript (PDict a) k)" and "is_str (projr (py_subscript (PDict a) k))"
    by simp_all
qed

lemma str_dict_get_ok:
  assumes "list_all (\<lambda>kv. is_str (snd kv)) a"
  shows "is_str (projr (py_get (PDict a) k (PStr dflt)))"
proof -
  from assms obtain s where "py_get (PDict a) k (PStr dflt) = Inr (PStr s)"
    by (rule str_dict_get)
  then show ?thesis by simp
qed

lemma num_dict_get_ok:
  assumes "list_all (\<lambda>kv. is_num (snd kv)) b"
  shows "\<not> isl (py_lt (projr (py_get (PDict b) k (PInt 0))) n)"
proof -
  from assms obtain v q where "py_get (PDict b) k (PInt 0) = Inr v" and "num_of v = Some q"
    by (rule num_dict_get)
  then show ?thesis by (simp add: py_lt_def)
qed

lemma is_str_ok:
  assumes "is_str v"
  shows "\<not> isl (py_strip v)" and "\<not> isl (py_in n v)" and "\<not> isl (py_startswith v p)"
    and "\<not> isl (py_lower v)" and "\<not> isl (py_len v)"
  using assms by (cases v; simp)+

lemma aria_loop_returns:
  "list_all (\<lambda>kv. is_str (snd kv)) items \<Longrightarrow> \<not> isl (aria_loop selector items acc)"
proof (induction selector items acc rule: aria_loop.induct)
  case (1 selector found)
  show ?case by simp
next
  case (2 selector attr_name attr_value rest found)
  from "2.prems" obtain s where s: "attr_value = PStr s"
    by (auto elim: is_strE)
  from "2.prems" have rest: "list_all (\<lambda>kv. is_str (snd kv)) rest"
    by simp
  show ?case
  proof (cases "startswith attr_name ''aria-''")
    case True
    with "2.IH"(1) [OF True, of "strip s"] rest s show ?thesis
      by (simp del: startswith.simps)
  next
    case False
    with "2.IH"(2) [OF False] rest show ?thesis
      by (simp del: startswith.simps)
  qed
qed

lemma basic_returns:
  assumes "element_record e"
  shows "\<not> isl (check_accessibility_basic c e)"
proof -
  from assms obtain t a s b sel vis where
    f: "py_get e ''tag_name'' (PStr []) = Inr (PStr t)"
       "py_get e ''attributes'' (PDict []) = Inr (PDict a)"
       "py_get e ''text_content'' (PStr []) = Inr (PStr s)"
       "py_get e ''css_selector'' (PStr ''unknown'') = Inr sel"
    and a: "list_all (\<lambda>kv. is_str (snd kv)) a"
    by (rule element_recordE)
  show ?thesis
    unfolding check_accessibility_basic_def
    using str_dict_subscript_ok [OF a]
    by (simp add: isl_cond f is_str_ok)
qed

lemma py_get_dict_ok: "\<not> isl (py_get (PDict d) k dflt)"
  by simp

lemma advanced_returns:
  assumes "element_record e"
  shows "\<not> isl (check_accessibility_advanced c e)"
proof -
  from assms obtain t a s b sel vis where
    f: "py_get e ''tag_name'' (PStr []) = Inr (PStr t)"
       "py_get e ''attributes'' (PDict []) = Inr (PDict a)"
       "py_get e ''text_content'' (PStr []) = Inr (PStr s)"
       "py_get e ''css_selector'' (PStr ''unknown'') = Inr sel"
    and a: "list_all (\<lambda>kv. is_str (snd kv)) a"
    by (rule element_recordE)
  show ?thesis
    unfolding check_accessibility_advanced_def
    using aria_loop_returns [OF a]
    by (simp add: isl_cond f)
qed

lemma form_returns:
  assumes "element_record e"
  shows "\<not> isl (check_form_elements c e)"
proof -
  from assms obtain t a s b sel vis where
    f: "py_get e ''tag_name'' (PStr []) = Inr (PStr t)"
       "py_get e ''attributes'' (PDict []) = Inr (PDict a)"
       "py_get e ''css_selector'' (PStr ''unknown'') = Inr sel"
    by (rule element_recordE)
  show ?thesis
    unfolding check_form_elements_def
    by (simp add: isl_cond f)
qed

lemma links_returns:
  assumes "element_record e"
  shows "\<not> isl (check_links c e)"
proof -
  from assms obtain t a s b sel vis where
    f: "py_get e ''tag_name'' (PStr []) = Inr (PStr t)"
       "py_get e ''attributes'' (PDict []) = Inr (PDict a)"
       "py_get e ''text_content'' (PStr []) = Inr (PStr s)"
       "py_get e ''css_selector'' (PStr ''unknown'') = Inr sel"
    and a: "list_all (\<lambda>kv. is_str (snd kv)) a"
    by (rule element_recordE)
  from a obtain h where h: "py_get (PDict a) ''href'' (PStr []) = Inr (PStr h)"
    by (rule str_dict_get)
  show ?thesis
    unfolding check_links_def
    using str_dict_subscript_ok [OF a]
    by (simp add: isl_cond f h is_str_ok del: py_get.simps)
qed

lemma images_returns:
  assumes "element_record e"
  shows "\<not> isl (check_images c e)"
proof -
  from assms obtain t a s b sel vis where
    f: "py_get e ''tag_name'' (PStr []) = Inr (PStr t)"
       "py_get e ''attributes'' (PDict []) = Inr (PDict a)"
       "py_get e ''css_selector'' (PStr ''unknown'') = Inr sel"
    by (rule element_recordE)
  show ?thesis
    unfolding check_images_def
    by (simp add: isl_cond f)
qed

lemma interactive_returns:
  assumes "element_record e"
  shows "\<not> isl (check_interactive_elements c e)"
proof -
  from assms obtain t a s b sel vis where
    f: "py_get e ''tag_name'' (PStr []) = Inr (PStr t)"
       "py_get e ''bounding_rect'' (PDict []) = Inr (PDict b)"
       "py_get e ''css_selector'' (PStr ''unknown'') = Inr sel"
    and b: "list_all (\<lambda>kv. is_num (snd kv)) b"
    by (rule element_recordE)
  show ?thesis
    unfolding check_interactive_elements_def
    using num_dict_get_ok [OF b]
    by (simp add: isl_cond f Let_def py_get_dict_ok del: py_get.simps)
qed

lemma text_returns:
  assumes "element_record e"
  shows "\<not> isl (check_text_content c e)"
proof -
  from assms obtain t a s b sel vis where
    f: "py_get e ''text_content'' (PStr []) = Inr (PStr s)"
       "py_get e ''css_selector'' (PStr ''unknown'') = Inr sel"
    by (rule element_recordE)
  show ?thesis
    unfolding check_text_content_def
    by (simp add: isl_cond f)
qed

lemma visual_returns:
  assumes "element_record e"
  shows "\<not> isl (check_visual_layout c e)"
proof -
  from assms obtain t a s b sel vis where
    f: "py_get e ''bounding_rect'' (PDict []) = Inr (PDict b)"
       "py_get e ''css_selector'' (PStr ''unknown'') = Inr sel"
       "py_get e ''is_visible'' (PBool True) = Inr vis"
    and b: "list_all (\<lambda>kv. is_num (snd kv)) b"
    by (rule element_recordE)
  show ?thesis
    unfolding check_visual_layout_def
    using num_dict_get_ok [OF b]
    by (simp add: isl_cond f py_get_dict_ok del: py_get.simps)
qed

lemma performance_returns:
  assumes "element_record e"
  shows "\<not> isl (check_performance_indicators c e)"
proof -
  from assms obtain t a s b sel vis where
    f: "py_get e ''tag_name'' (PStr []) = Inr (PStr t)"
       "py_get e ''attributes'' (PDict []) = Inr (PDict a)"
       "py_get e ''css_selector'' (PStr ''unknown'') = Inr sel"
    and a: "list_all (\<lambda>kv. is_str (snd kv)) a"
    by (rule element_recordE)
  show ?thesis
    unfolding check_performance_indicators_def
    using str_dict_subscript_ok [OF a]
    by (simp add: isl_cond f is_str_ok)
qed

subsection \<open>No rule raises on a record\<close>

lemma element_record_attributes_ok:
  assumes "element_record element"
  shows "attributes_ok element"
proof -
  from assms obtain t a s b sel vis where
    "py_get element ''attributes'' (PDict []) = Inr (PDict a)"
    by (rule element_recordE)
  then show ?thesis
    by (cases element) (auto simp: attributes_ok_def split: option.splits)
qed

lemma registered_rule_returns:
  assumes "element_record element" and "map_of (load_validation_rules c) name = Some f"
  shows "\<not> isl (f element)"
proof -
  from map_of_SomeD [OF assms(2)]
  have "f \<in> {check_accessibility_basic c, check_accessibility_advanced c,
      check_form_elements c, check_links c, check_images c, check_interactive_elements c,
      check_text_content c, check_visual_layout c, check_performance_indicators c}"
    by (auto simp: load_validation_rules_def)
  then show ?thesis
    using assms(1) basic_returns [of element c] advanced_returns [of element c]
      form_returns [of element c] links_returns [of element c] images_returns [of element c]
      interactive_returns [of element c] text_returns [of element c]
      visual_returns [of element c] performance_returns [of element c]
    by (elim insertE emptyE) simp_all
qed

lemma rule_ran_element_record:
  assumes "element_record element"
  shows "rule_ran (validation_rules (init cfg)) element = (\<lambda>n. n \<in> set rule_names)"
proof (rule ext)
  fix n
  let ?rules = "load_validation_rules PNone"
  have rules: "validation_rules (init cfg) = ?rules"
    by (rule validation_rules_init)
  have keys: "map fst ?rules = rule_names"
    by (simp add: load_validation_rules_def rule_names_def)
  show "rule_ran (validation_rules (init cfg)) element n \<longleftrightarrow> n \<in> set rule_names"
  proof (cases "map_of ?rules n")
    case None
    then have "n \<notin> set (map fst ?rules)"
      by (simp add: map_of_eq_None_iff)
    with None show ?thesis
      unfolding rules keys by (simp add: rule_ran_def)
  next
    case (Some f)
    from map_of_SomeD [OF Some] have "n \<in> set (map fst ?rules)"
      by force
    moreover from registered_rule_returns [OF assms Some] obtain found
      where "f element = Inr found"
      by (cases "f element") simp_all
    ultimately show ?thesis
      using Some unfolding rules keys by (simp add: rule_ran_def)
  qed
qed


text \<open>
  C10: on every record with absent or partial fields \<^const>\<open>validate_element\<close> returns a
  result and no fault escapes the call, whatever validator is called and whatever names
  are requested; for this it is enough that the attributes are absent or a dict. On such
  a record no rule of the registry raises either: the checks performed are all the
  requested names that are registered. Absent fields are treated as their defaults (tag
  and text empty, no attributes, geometry zero, visible): writing the defaults into the
  element changes neither \<^const>\<open>passed\<close> nor the issues nor \<^const>\<open>checks_performed\<close>.
\<close>

theorem absent_fields_are_defaults:
  "(element_record element \<or> attributes_ok element \<longrightarrow>
      (\<exists>r. validate_element self element checks = Inr r)) \<and>
   (element_record element \<longrightarrow>
      (\<exists>r. validate_element (init cfg) element checks = Inr r \<and>
           checks_performed r =
             filter (\<lambda>n. n \<in> set rule_names) (requested (init cfg) checks))) \<and>
   map_sum id outcome (validate_element (init cfg) (with_defaults element) checks) =
     map_sum id outcome (validate_element (init cfg) element checks)"
proof -
  have "\<exists>r. validate_element (init cfg) element checks = Inr r \<and>
           checks_performed r = filter (\<lambda>n. n \<in> set rule_names) (requested (init cfg) checks)"
    if typed: "element_record element"
  proof -
    from element_record_attributes_ok [OF typed] obtain r
      where r: "validate_element (init cfg) element checks = Inr r"
      using validate_element_returns_iff [of "init cfg" element checks] by blast
    from validate_element_fields(2) [OF r]
    have "checks_performed r =
        filter (\<lambda>n. n \<in> set rule_names) (requested (init cfg) checks)"
      by (simp only: rule_ran_element_record [OF typed])
    with r show ?thesis by blast
  qed
  then show ?thesis
    using validate_element_returns_iff [of self element checks]
      validate_element_defaults [of cfg element checks]
      element_record_attributes_ok [of element]
    by blast
qed

text \<open>
  A button of which only the tag and the width are given: all nine rules run, the absent
  text and attributes leave it without an accessible name, and the absent height counts
  as zero, below the touch target.
\<close>

theorem absent_fields_are_defaults_witness:
  "attributes_ok partial_button_element \<and>
   element_record partial_button_element \<and>
   map_sum id checks_performed (validate_element (init PNone) partial_button_element None) =
     Inr rule_names \<and>
   map_sum id (map issue_type \<circ> issues)
     (validate_element (init PNone) partial_button_element None) =
     Inr [''button_no_accessible_name'', ''small_touch_target''] \<and>
   map_sum id outcome
     (validate_element (init PNone) (with_defaults partial_button_element) None) =
     map_sum id outcome (validate_element (init PNone) partial_button_element None)"
proof -
  have ok: "attributes_ok partial_button_element"
    by (simp add: attributes_ok_def partial_button_element_def)
  have typed: "element_record partial_button_element"
    by (simp add: element_record_def partial_button_element_def field_is_def dict_of_def
          is_num_def)
  have types: "map_sum id (map issue_type \<circ> issues)
     (validate_element (init PNone) partial_button_element None) =
     Inr [''button_no_accessible_name'', ''small_touch_target'']"
    by (simp add: eval_defs partial_button_element_def)
  from absent_fields_are_defaults [of partial_button_element "init PNone" None PNone] ok typed
  obtain r where r: "validate_element (init PNone) partial_button_element None = Inr r"
    and performed: "checks_performed r =
      filter (\<lambda>n. n \<in> set rule_names) (requested (init PNone) None)"
    and same: "map_sum id outcome
      (validate_element (init PNone) (with_defaults partial_button_element) None) =
      map_sum id outcome (validate_element (init PNone) partial_button_element None)"
    by blast
  from performed have "checks_performed r = rule_names"
    by (simp add: requested_def names_init rule_names_def)
  with r have "map_sum id checks_performed
      (validate_element (init PNone) partial_button_element None) = Inr rule_names"
    by simp
  with ok typed types same show ?thesis
    by (intro conjI)
qed

end
